theory Spec2Isabelle
  imports Main "HOL-Library.Sublist" "HOL-Library.Word"
begin

section \<open>Configuration maps\<close>

text \<open>
  A Go \<^verbatim>\<open>map[string]string\<close> is modelled by the list of its entries, in the order in
  which a \<^verbatim>\<open>range\<close> loop visits them; a map has one entry per key, so the keys of
  such a list are distinct. Go's \<^verbatim>\<open>m[k]\<close> on a missing key yields the empty string.
  The maps of an instance are never \<^verbatim>\<open>nil\<close>: they come from the database layer or from
  the defaults that \<^verbatim>\<open>Update\<close> fills in.
\<close>

type_synonym config = "(string \<times> string) list"

text \<open>A device is a config map; a device set maps device names to devices.\<close>

type_synonym devices = "(string \<times> config) list"

definition get :: "config \<Rightarrow> string \<Rightarrow> string" where
  "get m k = (case map_of m k of None \<Rightarrow> [] | Some v \<Rightarrow> v)"

definition has_key :: "(string \<times> 'a) list \<Rightarrow> string \<Rightarrow> bool" where
  "has_key m k = (case map_of m k of None \<Rightarrow> False | Some v \<Rightarrow> True)"

text \<open>\<^verbatim>\<open>devices[name]\<close>: the device of that name, the empty (nil) device when there is none.\<close>

definition get_device :: "devices \<Rightarrow> string \<Rightarrow> config" where
  "get_device ds n = (case map_of ds n of None \<Rightarrow> [] | Some d \<Rightarrow> d)"

fun delete_key :: "string \<Rightarrow> (string \<times> 'a) list \<Rightarrow> (string \<times> 'a) list" where
  "delete_key k [] = []"
| "delete_key k ((k', v) # m) = (if k' = k then delete_key k m else (k', v) # delete_key k m)"

fun set_key :: "string \<Rightarrow> 'a \<Rightarrow> (string \<times> 'a) list \<Rightarrow> (string \<times> 'a) list" where
  "set_key k v [] = [(k, v)]"
| "set_key k v ((k', v') # m) = (if k' = k then (k, v) # m else (k', v') # set_key k v m)"

definition HasPrefix :: "string \<Rightarrow> string \<Rightarrow> bool" where
  "HasPrefix s p = prefix p s"

definition TrimPrefix :: "string \<Rightarrow> string \<Rightarrow> string" where
  "TrimPrefix s p = (if prefix p s then drop (length p) s else s)"

definition StringInSlice :: "string \<Rightarrow> string list \<Rightarrow> bool" where
  "StringInSlice k xs = (k \<in> set xs)"

text \<open>\<^verbatim>\<open>filepath.Join\<close> of a directory and a file name (no cleaning of the path is modelled).\<close>

definition Join :: "string \<Rightarrow> string \<Rightarrow> string" where
  "Join dir file = dir @ ''/'' @ file"

subsection \<open>Errors\<close>

text \<open>
  An error is the sentinel \<^verbatim>\<open>device.ErrUnsupportedDevType\<close>, which callers compare
  against, or a message. \<^verbatim>\<open>errors.Wrap\<close> prefixes the message.
\<close>

datatype error = ErrUnsupportedDevType | Errorf string

fun error_message :: "error \<Rightarrow> string" where
  "error_message ErrUnsupportedDevType = ''Unsupported device type''"
| "error_message (Errorf s) = s"

definition Wrap :: "error \<Rightarrow> string \<Rightarrow> error" where
  "Wrap e msg = Errorf (msg @ '': '' @ error_message e)"

section \<open>Status derivation\<close>

datatype StatusCode = Stopped | Running | Error

text \<open>
  Modelled from the spec: the table of status names of the API package is not part of the
  sources at hand; the states are named Stopped, Running and Error.
\<close>

fun StatusCode_String :: "StatusCode \<Rightarrow> string" where
  "StatusCode_String Stopped = ''Stopped''"
| "StatusCode_String Running = ''Running''"
| "StatusCode_String Error = ''Error''"

text \<open>
  \<^verbatim>\<open>strings.ToUpper\<close> on ASCII: a lower-case letter loses 32, that is bit 5 of its code.
\<close>

definition upper_char :: "char \<Rightarrow> char" where
  "upper_char c =
    (if c \<in> set ''abcdefghijklmnopqrstuvwxyz''
     then (case c of Char b0 b1 b2 b3 b4 b5 b6 b7 \<Rightarrow> Char b0 b1 b2 b3 b4 False b6 b7)
     else c)"

definition ToUpper :: "string \<Rightarrow> string" where
  "ToUpper s = map upper_char s"

text \<open>
  One session with the hypervisor's control channel. The hypervisor's side of it is the
  environment: whether the monitor socket can be opened (\<^verbatim>\<open>qmp.NewSocketMonitor\<close>),
  whether the capabilities handshake succeeds (\<^verbatim>\<open>monitor.Connect\<close>), what the command
  returns (\<open>None\<close> when \<^verbatim>\<open>monitor.Run\<close> fails) and the status field decoded from the
  reply (\<open>None\<close> when \<^verbatim>\<open>json.Unmarshal\<close> fails).
\<close>

record monitor =
  socket_ok :: bool
  connect_ok :: bool
  run_reply :: "string option"
  decode_status :: "string \<Rightarrow> string option"

text \<open>The calls made on the monitor during one session, in order.\<close>

datatype qmp_call = NewSocketMonitor | Connect | Run string | Disconnect

text \<open>
  \<^verbatim>\<open>statusCode\<close>: the derived status and the monitor calls made. The deferred
  \<^verbatim>\<open>monitor.Disconnect()\<close> is registered after a successful handshake only.
\<close>

definition statusCode :: "monitor \<Rightarrow> StatusCode \<times> qmp_call list" where
  "statusCode mon =
    (if \<not> socket_ok mon then (Stopped, [])
     else if \<not> connect_ok mon then (Error, [NewSocketMonitor])
     else (case run_reply mon of
        None \<Rightarrow> (Error, [NewSocketMonitor, Connect, Run ''query-status'', Disconnect])
      | Some respRaw \<Rightarrow>
         (case decode_status mon respRaw of
            None \<Rightarrow> (Error, [NewSocketMonitor, Connect, Run ''query-status'', Disconnect])
          | Some status \<Rightarrow>
             if status = ''running''
             then (Running, [NewSocketMonitor, Connect, Run ''query-status'', Disconnect])
             else (Stopped, [NewSocketMonitor, Connect, Run ''query-status'', Disconnect]))))"

definition State :: "monitor \<Rightarrow> string" where
  "State mon = ToUpper (StatusCode_String (fst (statusCode mon)))"

definition IsRunning :: "monitor \<Rightarrow> bool" where
  "IsRunning mon = (State mon \<noteq> ''BROKEN'' \<and> State mon \<noteq> ''STOPPED'')"

section \<open>The instance, the database and the host\<close>

text \<open>The fields of the \<^verbatim>\<open>vmQemu\<close> struct. Times are instants on an integer scale.\<close>

record vmQemu =
  architecture :: int
  snapshot :: bool
  creationDate :: int
  lastUsedDate :: int
  ephemeral :: bool
  inst_id :: int
  project :: string
  name :: string
  description :: string
  stateful :: bool
  expandedConfig :: config
  expandedDevices :: devices
  localConfig :: config
  localDevices :: devices
  profiles :: "string list"
  node :: string
  expiryDate :: int
  storagePool :: "string option"

text \<open>What the database holds for this instance.\<close>

record database =
  db_description :: string
  db_architecture :: int
  db_ephemeral :: bool
  db_expiryDate :: int
  db_config :: config
  db_devices :: devices
  db_profiles :: "string list"

text \<open>The closures a device driver hands back as hooks.\<close>

datatype hook = RegisterHook string | PostStopHook string | DeleteFilesHook string string string

text \<open>
  What an operation does to the host, in order: kernel modules, mounts, files,
  directories, commands sent over the control channel, device driver calls, processes and
  lifecycle notifications.
\<close>

datatype host_event =
    Modprobe string
  | MountInstance
  | UnmountInstance
  | ConfigShareWritten
  | MkdirAll string
  | NvramRemoved string
  | NvramCopied string string
  | FileRemoved string
  | FileWritten string
  | QmpCommand string
  | DeviceStart string
  | DeviceStop string
  | DeviceUpdate string
  | HookRun hook
  | MaasCall string
  | ProcessLaunched string "string list"
  | BackupFileWritten
  | Lifecycle string string

text \<open>
  The world outside the struct: the database rows of the instance, the loaded kernel
  modules, the effects on the host so far, and the number of sessions opened with the
  control channel so far (the hypervisor answers the n-th session as the environment
  says).
\<close>

record world =
  db :: database
  modules :: "string list"
  host :: "host_event list"
  sessions :: nat

type_synonym state = "vmQemu \<times> world"

text \<open>A profile as the database layer returns it.\<close>

record Profile =
  profile_name :: string
  profile_config :: config
  profile_devices :: devices

text \<open>What a device driver returns from Start and Stop.\<close>

record MountEntryItem =
  DevPath :: string
  TargetPath :: string

record RunConfigItem =
  Key :: string
  Value :: string

record RunConfig =
  RootFS_Path :: string
  Mounts :: "MountEntryItem list"
  NetworkInterface :: "RunConfigItem list"
  PostHooks :: "hook list"
  Uevents :: "string list list"

definition empty_RunConfig :: RunConfig where
  "empty_RunConfig = \<lparr>RootFS_Path = [], Mounts = [], NetworkInterface = [], PostHooks = [], Uevents = []\<rparr>"

text \<open>
  What \<^verbatim>\<open>device.New\<close> returns: a device and no error, a device together with a
  validation error, or no device and an error.
\<close>

datatype new_result = Loaded | LoadedInvalid error | NotLoaded error

text \<open>What reading the PID file returns: its content, or an error that is or is not "no such file".\<close>

datatype read_result = Content string | NotExist error | ReadError error

text \<open>
  A call into a device driver: the maps the driver saves through the volatile setter it
  was given, and what the call returns.
\<close>

record 'a driver_call =
  volatile_saves :: "config list"
  returns :: 'a

text \<open>
  The environment: every collaborator whose code is not part of the controller answers as
  the environment says. Functions of the arguments of the call stand for the
  collaborator; a database transaction either commits or fails as a whole, and the retry
  wrapper's last attempt is the one that counts.
\<close>

record env =
  monitor_at :: "nat \<Rightarrow> monitor"
  LXD_OVMF_PATH :: string
  LogPath_of :: string
  Path_of :: string
  DevicesPath_of :: string
  ShmountsPath_of :: string
  PathExists :: "string \<Rightarrow> bool"
  FileCopy :: "string \<Rightarrow> string \<Rightarrow> error option"
  modprobe :: "string \<Rightarrow> error option"
  GetPoolByInstance :: "error + string"
  MountInstance_result :: "error + bool"
  UnmountInstance_result :: "error + bool"
  GetInstanceDisk :: "error + string"
  generateConfigShare_result :: "error option"
  MkdirAll_result :: "string \<Rightarrow> error option"
  uuid_New :: string
  LookPath :: "string \<Rightarrow> error option"
  RunCommand :: "string \<Rightarrow> string list \<Rightarrow> error option"
  WriteFile :: "string \<Rightarrow> error option"
  ParseByteSizeString :: "string \<Rightarrow> error + int"
  Atoi :: "string \<Rightarrow> error + int"
  ReadFile_pid :: read_result
  proc_exists :: "nat \<Rightarrow> bool"
  polls_before_timeout :: "int \<Rightarrow> nat"
  IsTrue :: "string \<Rightarrow> bool"
  ARCH_64BIT_INTEL_X86 :: int
  ARCH_64BIT_ARMV8_LITTLE_ENDIAN :: int
  tx_ConfigUpdate :: "config \<Rightarrow> error option"
  tx_updateKey :: "string \<Rightarrow> string \<Rightarrow> error option"
  ContainerConfigGet_fails :: "string \<Rightarrow> bool"
  deviceNextInterfaceHWAddr :: "string \<Rightarrow> error + string"
  device_New :: "string \<Rightarrow> config \<Rightarrow> new_result"
  CanHotPlug :: "string \<Rightarrow> config \<Rightarrow> bool \<times> string list"
  driver_Start :: "string \<Rightarrow> config \<Rightarrow> (error + RunConfig option) driver_call"
  driver_Stop :: "string \<Rightarrow> config \<Rightarrow> (error + RunConfig option) driver_call"
  driver_Update :: "string \<Rightarrow> config \<Rightarrow> devices \<Rightarrow> bool \<Rightarrow> (error option) driver_call"
  run_hook :: "hook \<Rightarrow> error option"
  device_less :: "string \<times> config \<Rightarrow> string \<times> config \<Rightarrow> bool"
  containerValidConfig :: "config \<Rightarrow> bool \<Rightarrow> error option"
  instanceValidDevices :: "devices \<Rightarrow> bool \<Rightarrow> error option"
  Profiles :: "string \<Rightarrow> error + string list"
  ProfilesGet :: "bool \<Rightarrow> string \<Rightarrow> string list \<Rightarrow> error + Profile list"
  ArchitectureName :: "int \<Rightarrow> error + string"
  DeepCopy_result :: "error option"
  maas_api_url :: "error + string"
  maas_available :: bool
  maas_DefinedContainer :: "error + bool"
  maas_call :: "string \<Rightarrow> error option"
  tx_InstanceUpdate :: "error option"
  writeBackupFile :: "(error \<times> bool) option"

definition LogPath :: "env \<Rightarrow> string" where "LogPath e = LogPath_of e"
definition InstancePath :: "env \<Rightarrow> string" where "InstancePath e = Path_of e"
definition DevicesPath :: "env \<Rightarrow> string" where "DevicesPath e = DevicesPath_of e"
definition ShmountsPath :: "env \<Rightarrow> string" where "ShmountsPath e = ShmountsPath_of e"

definition getMonitorPath :: "env \<Rightarrow> string" where
  "getMonitorPath e = Join (LogPath e) ''qemu.monitor''"

definition getNvramPath :: "env \<Rightarrow> string" where
  "getNvramPath e = Join (InstancePath e) ''qemu.nvram''"

definition pidFilePath :: "env \<Rightarrow> string" where
  "pidFilePath e = Join (LogPath e) ''qemu.pid''"

definition ovmfPath :: "env \<Rightarrow> string" where
  "ovmfPath e = (if LXD_OVMF_PATH e \<noteq> [] then LXD_OVMF_PATH e else ''/usr/share/OVMF'')"

definition emit :: "host_event \<Rightarrow> world \<Rightarrow> world" where
  "emit ev w = w\<lparr>host := host w @ [ev]\<rparr>"

text \<open>
  \<^verbatim>\<open>IsRunning\<close> on the instance opens one more session with the control channel.
\<close>

definition IsRunning_now :: "env \<Rightarrow> world \<Rightarrow> bool \<times> world" where
  "IsRunning_now e w = (IsRunning (monitor_at e (sessions w)), w\<lparr>sessions := Suc (sessions w)\<rparr>)"

section \<open>Volatile state\<close>

text \<open>
  Modelled from the spec: the database layer's update of the instance's config rows
  (\<^verbatim>\<open>ContainerConfigUpdate\<close>, and \<^verbatim>\<open>InstanceSnapshotConfigUpdate\<close> for a snapshot) is not part
  of the sources at hand; setting a key to the empty string deletes it from persistence,
  any other value is stored under the key.
\<close>

fun ContainerConfigUpdate :: "config \<Rightarrow> config \<Rightarrow> config" where
  "ContainerConfigUpdate [] rows = rows"
| "ContainerConfigUpdate ((key, v) # changes) rows =
     ContainerConfigUpdate changes (if v = [] then delete_key key rows else set_key key v rows)"

definition InstanceSnapshotConfigUpdate :: "config \<Rightarrow> config \<Rightarrow> config" where
  "InstanceSnapshotConfigUpdate changes rows = ContainerConfigUpdate changes rows"

text \<open>The loop of \<^verbatim>\<open>VolatileSet\<close> that applies the change to the expanded and local config.\<close>

fun apply_locally :: "config \<Rightarrow> config \<times> config \<Rightarrow> config \<times> config" where
  "apply_locally [] (expanded, local) = (expanded, local)"
| "apply_locally ((key, v) # changes) (expanded, local) =
     (if v = [] then apply_locally changes (delete_key key expanded, delete_key key local)
      else apply_locally changes (set_key key v expanded, set_key key v local))"

definition VolatileSet :: "env \<Rightarrow> config \<Rightarrow> state \<Rightarrow> error option \<times> state" where
  "VolatileSet e changes s =
    (case s of (vm, w) \<Rightarrow>
      if list_ex (\<lambda>(key, v). \<not> HasPrefix key ''volatile.'') changes
      then (Some (Errorf ''Only volatile keys can be modified with VolatileSet''), s)
      else (case tx_ConfigUpdate e changes of
          Some err \<Rightarrow> (Some (Wrap err ''Failed to volatile config''), s)
        | None \<Rightarrow>
           (let rows = (if snapshot vm then InstanceSnapshotConfigUpdate changes (db_config (db w))
                        else ContainerConfigUpdate changes (db_config (db w)));
                w' = w\<lparr>db := (db w)\<lparr>db_config := rows\<rparr>\<rparr>;
                (expanded, local) = apply_locally changes (expandedConfig vm, localConfig vm)
            in (None, vm\<lparr>expandedConfig := expanded, localConfig := local\<rparr>, w'))))"

text \<open>
  \<^verbatim>\<open>deviceResetVolatile\<close>: the volatile keys of the device to clear, from a loop over the
  local config, then one \<^verbatim>\<open>VolatileSet\<close>.
\<close>

definition volatileClear :: "vmQemu \<Rightarrow> string \<Rightarrow> config \<Rightarrow> config \<Rightarrow> config" where
  "volatileClear vm devName oldConfig newConfig =
    (let devicePrefix = ''volatile.'' @ devName @ ''.'' in
     if get newConfig ''type'' \<noteq> get oldConfig ''type'' \<or> get newConfig ''nictype'' \<noteq> get oldConfig ''nictype''
     then map (\<lambda>(k, v). (k, [])) (filter (\<lambda>(k, v). HasPrefix k devicePrefix) (localConfig vm))
     else map (\<lambda>(k, v). (k, []))
            (filter (\<lambda>(k, v). HasPrefix k devicePrefix \<and> has_key newConfig (TrimPrefix k devicePrefix))
               (localConfig vm)))"

definition deviceResetVolatile :: "env \<Rightarrow> string \<Rightarrow> config \<Rightarrow> config \<Rightarrow> state \<Rightarrow> error option \<times> state" where
  "deviceResetVolatile e devName oldConfig newConfig s =
     VolatileSet e (volatileClear (fst s) devName oldConfig newConfig) s"

text \<open>
  \<^verbatim>\<open>deviceVolatileSetFunc\<close>: the setter handed to a driver prefixes every key with the
  device's volatile namespace.
\<close>

definition deviceVolatileSetFunc :: "env \<Rightarrow> string \<Rightarrow> config \<Rightarrow> state \<Rightarrow> error option \<times> state" where
  "deviceVolatileSetFunc e devName save s =
     VolatileSet e (map (\<lambda>(k, v). (''volatile.'' @ devName @ ''.'' @ k, v)) save) s"

definition deviceVolatileGetFunc :: "vmQemu \<Rightarrow> string \<Rightarrow> config" where
  "deviceVolatileGetFunc vm devName =
    (let pre = ''volatile.'' @ devName @ ''.'' in
     map (\<lambda>(k, v). (TrimPrefix k pre, v)) (filter (\<lambda>(k, v). HasPrefix k pre) (localConfig vm)))"

section \<open>Unix hotplug devices\<close>

record UnixHotplugEvent =
  Action :: string
  Vendor :: string
  Product :: string
  Path :: string
  Major :: "32 word"
  Minor :: "32 word"
  UeventParts :: "string list"
  UeventLen :: int

definition unixHotplugIsOurDevice :: "config \<Rightarrow> UnixHotplugEvent \<Rightarrow> bool" where
  "unixHotplugIsOurDevice config unixHotplug =
    (if (get config ''vendorid'' \<noteq> [] \<and> get config ''vendorid'' \<noteq> Vendor unixHotplug)
        \<or> (get config ''productid'' \<noteq> [] \<and> get config ''productid'' \<noteq> Product unixHotplug)
     then False else True)"

text \<open>
  The helpers that create and remove the device node on the host are not part of the
  sources at hand: they take the run configuration built so far and return it extended,
  or fail.
\<close>

record unix_helpers =
  unixDeviceSetupCharNum ::
    "string \<Rightarrow> string \<Rightarrow> string \<Rightarrow> config \<Rightarrow> 32 word \<Rightarrow> 32 word \<Rightarrow> string \<Rightarrow> bool \<Rightarrow> RunConfig \<Rightarrow> error + RunConfig"
  unixDeviceRemove :: "string \<Rightarrow> string \<Rightarrow> string \<Rightarrow> string \<Rightarrow> RunConfig \<Rightarrow> error + RunConfig"

text \<open>
  The handler that \<^verbatim>\<open>Register\<close> builds. A Go result \<^verbatim>\<open>(nil, nil)\<close> is \<open>Inr None\<close>,
  \<^verbatim>\<open>(&runConf, nil)\<close> is \<open>Inr (Some runConf)\<close> and \<^verbatim>\<open>(nil, err)\<close> is \<open>Inl err\<close>.
\<close>

definition unixHotplug_handler ::
  "unix_helpers \<Rightarrow> string \<Rightarrow> config \<Rightarrow> string \<Rightarrow> UnixHotplugEvent \<Rightarrow> error + RunConfig option" where
  "unixHotplug_handler h devicesPath deviceConfig deviceName e =
    (if \<not> unixHotplugIsOurDevice deviceConfig e then Inr None
     else
       (let runConf = empty_RunConfig;
            r = (if Action e = ''add''
                 then unixDeviceSetupCharNum h devicesPath ''unix'' deviceName deviceConfig
                        (Major e) (Minor e) (Path e) False runConf
                 else if Action e = ''remove''
                 then (let relativeTargetPath = TrimPrefix (Path e) ''/'' in
                       case unixDeviceRemove h devicesPath ''unix'' deviceName relativeTargetPath runConf of
                         Inl err \<Rightarrow> Inl err
                       | Inr runConf' \<Rightarrow>
                           Inr (runConf'\<lparr>PostHooks := [DeleteFilesHook devicesPath deviceName relativeTargetPath]\<rparr>))
                 else Inr runConf)
        in case r of
             Inl err \<Rightarrow> Inl err
           | Inr runConf' \<Rightarrow> Inr (Some (runConf'\<lparr>Uevents := Uevents runConf' @ [UeventParts e]\<rparr>))))"

text \<open>
  The registry of handlers, keyed by project, instance and device name joined by the null
  character. \<^verbatim>\<open>Register\<close> stores the handler of the device under its key.
\<close>

type_synonym handlers = "(string \<times> (UnixHotplugEvent \<Rightarrow> error + RunConfig option)) list"

definition handler_key :: "string \<Rightarrow> string \<Rightarrow> string \<Rightarrow> string" where
  "handler_key projectName instanceName deviceName =
     projectName @ [CHR 0x00] @ instanceName @ [CHR 0x00] @ deviceName"

definition unixHotplugRegisterHandler ::
  "string \<Rightarrow> string \<Rightarrow> string \<Rightarrow> (UnixHotplugEvent \<Rightarrow> error + RunConfig option) \<Rightarrow> handlers \<Rightarrow> handlers" where
  "unixHotplugRegisterHandler projectName instanceName deviceName handler hs =
     set_key (handler_key projectName instanceName deviceName) handler hs"

definition unixHotplugUnregisterHandler :: "string \<Rightarrow> string \<Rightarrow> string \<Rightarrow> handlers \<Rightarrow> handlers" where
  "unixHotplugUnregisterHandler projectName instanceName deviceName hs =
     delete_key (handler_key projectName instanceName deviceName) hs"

definition Register ::
  "unix_helpers \<Rightarrow> string \<Rightarrow> string \<Rightarrow> string \<Rightarrow> string \<Rightarrow> config \<Rightarrow> handlers \<Rightarrow> handlers" where
  "Register h projectName instanceName devicesPath deviceName deviceConfig hs =
     unixHotplugRegisterHandler projectName instanceName deviceName
       (unixHotplug_handler h devicesPath deviceConfig deviceName) hs"

section \<open>The machine description\<close>

text \<open>
  The generated file is the sequence of the sections written to the string builder; each
  constructor stands for one template of the source with the values substituted into it.
  The root drive's template has the fixed \<^verbatim>\<open>scsi-id = "0"\<close>; a supplementary drive's
  template takes its \<^verbatim>\<open>scsi-id\<close> from the drive index.
\<close>

datatype qemu_section =
    BaseConfig string string
  | MemorySection int
  | CPUSection int
  | FirmwareSection string string
  | VsockSection int
  | MonitorSection string
  | ConfDriveSection string
  | RootDriveSection string
  | DriveSection string string int
  | NetDevSection string string string

definition addMemoryConfig :: "env \<Rightarrow> vmQemu \<Rightarrow> qemu_section list \<Rightarrow> error + qemu_section list" where
  "addMemoryConfig e vm sb =
    (let memSize = get (expandedConfig vm) ''limits.memory'';
         memSize = (if memSize = [] then ''1GB'' else memSize)
     in case ParseByteSizeString e memSize of
          Inl err \<Rightarrow> Inl (Errorf (''limits.memory invalid: '' @ error_message err))
        | Inr memSizeBytes \<Rightarrow> Inr (sb @ [MemorySection memSizeBytes]))"

definition vsockID :: "vmQemu \<Rightarrow> int" where
  "vsockID vm = inst_id vm + 3"

definition addVsockConfig :: "vmQemu \<Rightarrow> qemu_section list \<Rightarrow> qemu_section list" where
  "addVsockConfig vm sb = sb @ [VsockSection (vsockID vm)]"

definition addCPUConfig :: "env \<Rightarrow> vmQemu \<Rightarrow> qemu_section list \<Rightarrow> error + qemu_section list" where
  "addCPUConfig e vm sb =
    (let cpus = get (expandedConfig vm) ''limits.cpu'';
         cpus = (if cpus = [] then ''1'' else cpus)
     in case Atoi e cpus of
          Inl err \<Rightarrow> Inl (Errorf (''limits.cpu invalid: '' @ error_message err))
        | Inr cpuCount \<Rightarrow> Inr (sb @ [CPUSection cpuCount]))"

definition addMonitorConfig :: "env \<Rightarrow> qemu_section list \<Rightarrow> qemu_section list" where
  "addMonitorConfig e sb = sb @ [MonitorSection (getMonitorPath e)]"

definition addFirmwareConfig :: "env \<Rightarrow> qemu_section list \<Rightarrow> qemu_section list" where
  "addFirmwareConfig e sb = sb @ [FirmwareSection (Join (ovmfPath e) ''OVMF_CODE.fd'') (getNvramPath e)]"

definition addConfDriveConfig :: "env \<Rightarrow> qemu_section list \<Rightarrow> qemu_section list" where
  "addConfDriveConfig e sb = sb @ [ConfDriveSection (Join (InstancePath e) ''config'')]"

text \<open>\<^verbatim>\<open>getStoragePool\<close> caches the pool handle in the struct.\<close>

definition getStoragePool :: "env \<Rightarrow> vmQemu \<Rightarrow> (error + string) \<times> vmQemu" where
  "getStoragePool e vm =
    (case storagePool vm of
       Some pool \<Rightarrow> (Inr pool, vm)
     | None \<Rightarrow>
        (case GetPoolByInstance e of
           Inl err \<Rightarrow> (Inl err, vm)
         | Inr pool \<Rightarrow> (Inr pool, vm\<lparr>storagePool := Some pool\<rparr>)))"

definition addRootDriveConfig :: "env \<Rightarrow> vmQemu \<Rightarrow> qemu_section list \<Rightarrow> (error + qemu_section list) \<times> vmQemu" where
  "addRootDriveConfig e vm sb =
    (case getStoragePool e vm of
       (Inl err, vm') \<Rightarrow> (Inl err, vm')
     | (Inr pool, vm') \<Rightarrow>
        (case GetInstanceDisk e of
           Inl err \<Rightarrow> (Inl err, vm')
         | Inr rootDrivePath \<Rightarrow> (Inr (sb @ [RootDriveSection rootDrivePath]), vm')))"

definition addDriveConfig :: "qemu_section list \<Rightarrow> int \<Rightarrow> MountEntryItem \<Rightarrow> qemu_section list" where
  "addDriveConfig sb driveIndex driveConf =
    (let driveName = TargetPath driveConf in sb @ [DriveSection driveName (DevPath driveConf) driveIndex])"

definition addNetDevConfig :: "qemu_section list \<Rightarrow> RunConfigItem list \<Rightarrow> qemu_section list" where
  "addNetDevConfig sb nicConfig =
    (let (devName, devTap, devHwaddr) =
       fold (\<lambda>nicItem (devName, devTap, devHwaddr).
               if Key nicItem = ''name'' then (Value nicItem, devTap, devHwaddr)
               else if Key nicItem = ''link'' then (devName, Value nicItem, devHwaddr)
               else if Key nicItem = ''hwaddr'' then (devName, devTap, Value nicItem)
               else (devName, devTap, devHwaddr))
            nicConfig ([], [], [])
     in sb @ [NetDevSection devName devTap devHwaddr])"

text \<open>
  The loop over the mounts of one run configuration: the index is incremented before each
  drive is written.
\<close>

fun addDrives :: "int \<Rightarrow> MountEntryItem list \<Rightarrow> qemu_section list \<Rightarrow> qemu_section list" where
  "addDrives driveIndex [] sb = sb"
| "addDrives driveIndex (drive # drives) sb =
     (let driveIndex = driveIndex + 1 in addDrives driveIndex drives (addDriveConfig sb driveIndex drive))"

text \<open>
  The loop over the run configurations of the devices. \<^verbatim>\<open>driveIndex := 0\<close> is inside the
  loop body, so every run configuration with mounts counts from 1 again.
\<close>

fun addDevConfs :: "env \<Rightarrow> RunConfig list \<Rightarrow> vmQemu \<Rightarrow> qemu_section list \<Rightarrow> (error + qemu_section list) \<times> vmQemu" where
  "addDevConfs e [] vm sb = (Inr sb, vm)"
| "addDevConfs e (runConf # devConfs) vm sb =
    (case (if RootFS_Path runConf \<noteq> [] then addRootDriveConfig e vm sb else (Inr sb, vm)) of
       (Inl err, vm') \<Rightarrow> (Inl err, vm')
     | (Inr sb1, vm') \<Rightarrow>
        (let sb2 = (if length (Mounts runConf) > 0 then addDrives 0 (Mounts runConf) sb1 else sb1);
             sb3 = (if length (NetworkInterface runConf) > 0
                    then addNetDevConfig sb2 (NetworkInterface runConf) else sb2)
         in addDevConfs e devConfs vm' sb3))"

text \<open>
  \<^verbatim>\<open>generateQemuConfigFile\<close>: the sections in the order written, then the file written
  under the log path. The result is the error, or the path and the content written.
\<close>

definition generateQemuConfigFile ::
  "env \<Rightarrow> string \<Rightarrow> string \<Rightarrow> RunConfig list \<Rightarrow> state \<Rightarrow> (error + string \<times> qemu_section list) \<times> state" where
  "generateQemuConfigFile e qemuType qemuConf devConfs s =
    (case s of (vm, w) \<Rightarrow>
      (let sb = [BaseConfig qemuType qemuConf] in
       case addMemoryConfig e vm sb of
         Inl err \<Rightarrow> (Inl err, s)
       | Inr sb \<Rightarrow>
          (case addCPUConfig e vm sb of
             Inl err \<Rightarrow> (Inl err, s)
           | Inr sb \<Rightarrow>
              (let sb = addFirmwareConfig e sb;
                   sb = addVsockConfig vm sb;
                   sb = addMonitorConfig e sb;
                   sb = addConfDriveConfig e sb
               in case addDevConfs e devConfs vm sb of
                    (Inl err, vm') \<Rightarrow> (Inl err, (vm', w))
                  | (Inr sb, vm') \<Rightarrow>
                     (let configPath = Join (LogPath e) ''qemu.conf'' in
                      case WriteFile e configPath of
                        Some err \<Rightarrow> (Inl err, (vm', w))
                      | None \<Rightarrow> (Inr (configPath, sb), (vm', emit (FileWritten configPath) w)))))))"

text \<open>The \<^verbatim>\<open>scsi-id\<close> values of the drive sections of a file, in the order written.\<close>

fun scsi_ids :: "qemu_section list \<Rightarrow> int list" where
  "scsi_ids [] = []"
| "scsi_ids (RootDriveSection p # sb) = 0 # scsi_ids sb"
| "scsi_ids (DriveSection n p i # sb) = i # scsi_ids sb"
| "scsi_ids (x # sb) = scsi_ids sb"

section \<open>Device orchestration\<close>

text \<open>
  Modelled from the spec: the sort of a device set is not part of the sources at hand;
  it is a deterministic sort of the devices, and the reversed order is its exact reverse.
  The comparison of two devices is the environment's.
\<close>

fun insert_device ::
  "(string \<times> config \<Rightarrow> string \<times> config \<Rightarrow> bool) \<Rightarrow> string \<times> config \<Rightarrow> devices \<Rightarrow> devices" where
  "insert_device lt d [] = [d]"
| "insert_device lt d (x # xs) = (if lt d x then d # x # xs else x # insert_device lt d xs)"

definition Sorted :: "env \<Rightarrow> devices \<Rightarrow> devices" where
  "Sorted e ds = foldr (insert_device (device_less e)) ds []"

definition Reversed :: "env \<Rightarrow> devices \<Rightarrow> devices" where
  "Reversed e ds = rev (Sorted e ds)"

text \<open>
  \<^verbatim>\<open>fillNetworkDevice\<close>: a generated hardware address is stored under the device's
  volatile key, in the database first and then in the local and expanded config. When
  the insert fails and the database holds a value by now, that value is taken over.
\<close>

definition fillNetworkDevice :: "env \<Rightarrow> string \<Rightarrow> config \<Rightarrow> state \<Rightarrow> (error + config) \<times> state" where
  "fillNetworkDevice e devName m s =
    (case s of (vm, w) \<Rightarrow>
      if \<not> StringInSlice (get m ''nictype'') [''physical'', ''ipvlan'', ''sriov''] \<and> get m ''hwaddr'' = []
      then
        (let configKey = ''volatile.'' @ devName @ ''.hwaddr'';
             volatileHwaddr = get (localConfig vm) configKey
         in if volatileHwaddr = []
            then (case deviceNextInterfaceHWAddr e configKey of
                Inl err \<Rightarrow> (Inl err, s)
              | Inr volatileHwaddr \<Rightarrow>
                 (case tx_updateKey e configKey volatileHwaddr of
                    Some err \<Rightarrow>
                      (let v = get (db_config (db w)) configKey in
                       if ContainerConfigGet_fails e configKey \<or> v = [] then (Inl err, s)
                       else (Inr (set_key ''hwaddr'' volatileHwaddr m),
                             (vm\<lparr>localConfig := set_key configKey v (localConfig vm),
                                 expandedConfig := set_key configKey v (expandedConfig vm)\<rparr>, w)))
                  | None \<Rightarrow>
                      (Inr (set_key ''hwaddr'' volatileHwaddr m),
                       (vm\<lparr>localConfig := set_key configKey volatileHwaddr (localConfig vm),
                           expandedConfig := set_key configKey volatileHwaddr (expandedConfig vm)\<rparr>,
                        w\<lparr>db := (db w)\<lparr>db_config := set_key configKey volatileHwaddr (db_config (db w))\<rparr>\<rparr>))))
            else (Inr (set_key ''hwaddr'' volatileHwaddr m), s))
      else (Inr m, s))"

text \<open>
  \<^verbatim>\<open>deviceLoad\<close>: the outcome of constructing the driver and the config copy handed to it.
\<close>

definition deviceLoad :: "env \<Rightarrow> string \<Rightarrow> config \<Rightarrow> state \<Rightarrow> (new_result \<times> config) \<times> state" where
  "deviceLoad e deviceName rawConfig s =
    (if StringInSlice (get rawConfig ''type'') [''nic'', ''infiniband'']
     then (case fillNetworkDevice e deviceName rawConfig s of
             (Inl err, s') \<Rightarrow> ((NotLoaded err, []), s')
           | (Inr configCopy, s') \<Rightarrow> ((device_New e deviceName configCopy, configCopy), s'))
     else ((device_New e deviceName rawConfig, rawConfig), s))"

text \<open>What a driver saves through its volatile setter during a call, one map after the other.\<close>

fun apply_saves :: "env \<Rightarrow> string \<Rightarrow> config list \<Rightarrow> state \<Rightarrow> state" where
  "apply_saves e devName [] s = s"
| "apply_saves e devName (save # saves) s =
     apply_saves e devName saves (snd (deviceVolatileSetFunc e devName save s))"

definition emit_s :: "host_event \<Rightarrow> state \<Rightarrow> state" where
  "emit_s ev s = (fst s, emit ev (snd s))"

definition deviceStart ::
  "env \<Rightarrow> string \<Rightarrow> config \<Rightarrow> bool \<Rightarrow> state \<Rightarrow> (error + RunConfig option) \<times> state" where
  "deviceStart e deviceName rawConfig isRunning s =
    (case deviceLoad e deviceName rawConfig s of
       ((NotLoaded err, configCopy), s') \<Rightarrow> (Inl err, s')
     | ((LoadedInvalid err, configCopy), s') \<Rightarrow> (Inl err, s')
     | ((Loaded, configCopy), s') \<Rightarrow>
        (if isRunning \<and> \<not> fst (CanHotPlug e deviceName configCopy)
         then (Inl (Errorf ''Device cannot be started when instance is running''), s')
         else (let call = driver_Start e deviceName configCopy;
                   s'' = emit_s (DeviceStart deviceName) (apply_saves e deviceName (volatile_saves call) s')
               in (returns call, s''))))"

text \<open>\<^verbatim>\<open>runHooks\<close>: the hooks run in order until one fails.\<close>

fun runHooks :: "env \<Rightarrow> hook list \<Rightarrow> state \<Rightarrow> error option \<times> state" where
  "runHooks e [] s = (None, s)"
| "runHooks e (hook # hooks) s =
     (case run_hook e hook of
        Some err \<Rightarrow> (Some err, emit_s (HookRun hook) s)
      | None \<Rightarrow> runHooks e hooks (emit_s (HookRun hook) s))"

definition deviceStop :: "env \<Rightarrow> string \<Rightarrow> config \<Rightarrow> state \<Rightarrow> error option \<times> state" where
  "deviceStop e deviceName rawConfig s =
    (case deviceLoad e deviceName rawConfig s of
       ((NotLoaded err, configCopy), s') \<Rightarrow>
         (if err = ErrUnsupportedDevType then (Some err, s')
          else (Some (Errorf (''Device stop validation failed for '' @ deviceName @ '': '' @ error_message err)), s'))
     | ((r, configCopy), s') \<Rightarrow>
         (if r = LoadedInvalid ErrUnsupportedDevType then (Some ErrUnsupportedDevType, s')
          else
            (let canHotPlug = fst (CanHotPlug e deviceName configCopy);
                 (running, w1) = IsRunning_now e (snd s');
                 s1 = (fst s', w1)
             in if running \<and> \<not> canHotPlug
                then (Some (Errorf ''Device cannot be stopped when instance is running''), s1)
                else (let call = driver_Stop e deviceName configCopy;
                          s2 = emit_s (DeviceStop deviceName) (apply_saves e deviceName (volatile_saves call) s1)
                      in case returns call of
                           Inl err \<Rightarrow> (Some err, s2)
                         | Inr None \<Rightarrow> (None, s2)
                         | Inr (Some runConf) \<Rightarrow> runHooks e (PostHooks runConf) s2))))"

definition deviceUpdate ::
  "env \<Rightarrow> string \<Rightarrow> config \<Rightarrow> devices \<Rightarrow> bool \<Rightarrow> state \<Rightarrow> error option \<times> state" where
  "deviceUpdate e deviceName rawConfig oldDevices isRunning s =
    (case deviceLoad e deviceName rawConfig s of
       ((NotLoaded err, configCopy), s') \<Rightarrow> (Some err, s')
     | ((LoadedInvalid err, configCopy), s') \<Rightarrow> (Some err, s')
     | ((Loaded, configCopy), s') \<Rightarrow>
        (let call = driver_Update e deviceName configCopy oldDevices isRunning;
             s'' = emit_s (DeviceUpdate deviceName) (apply_saves e deviceName (volatile_saves call) s')
         in (returns call, s'')))"

definition deviceAdd :: "string \<Rightarrow> config \<Rightarrow> error option" where
  "deviceAdd deviceName rawConfig = None"

definition deviceRemove :: "string \<Rightarrow> config \<Rightarrow> error option" where
  "deviceRemove deviceName rawConfig = None"

text \<open>
  \<^verbatim>\<open>cleanupDevices\<close>: every expanded device is stopped, in sorted order; a failure is
  logged and the loop goes on.
\<close>

fun cleanup_loop :: "env \<Rightarrow> devices \<Rightarrow> state \<Rightarrow> state" where
  "cleanup_loop e [] s = s"
| "cleanup_loop e ((devName, devConfig) # devs) s =
     cleanup_loop e devs (snd (deviceStop e devName devConfig s))"

definition cleanupDevices :: "env \<Rightarrow> state \<Rightarrow> state" where
  "cleanupDevices e s = cleanup_loop e (Sorted e (expandedDevices (fst s))) s"

section \<open>Mounts and firmware settings\<close>

definition mount :: "env \<Rightarrow> state \<Rightarrow> (error + bool) \<times> state" where
  "mount e s =
    (case s of (vm, w) \<Rightarrow>
      (case getStoragePool e vm of
         (Inl err, vm') \<Rightarrow> (Inl err, (vm', w))
       | (Inr pool, vm') \<Rightarrow>
          (case MountInstance_result e of
             Inl err \<Rightarrow> (Inl err, (vm', w))
           | Inr ourMount \<Rightarrow> (Inr ourMount, (vm', if ourMount then emit MountInstance w else w)))))"

definition unmount :: "env \<Rightarrow> state \<Rightarrow> error option \<times> state" where
  "unmount e s =
    (case s of (vm, w) \<Rightarrow>
      (case getStoragePool e vm of
         (Inl err, vm') \<Rightarrow> (Some err, (vm', w))
       | (Inr pool, vm') \<Rightarrow>
          (case UnmountInstance_result e of
             Inl err \<Rightarrow> (Some err, (vm', w))
           | Inr ourUnmount \<Rightarrow> (None, (vm', if ourUnmount then emit UnmountInstance w else w)))))"

definition setupNvram :: "env \<Rightarrow> state \<Rightarrow> error option \<times> state" where
  "setupNvram e s =
    (case s of (vm, w) \<Rightarrow>
      (let secureboot = get (expandedConfig vm) ''security.secureboot'';
           srcOvmfFile = (if secureboot = [] \<or> IsTrue e secureboot
                          then Join (ovmfPath e) ''OVMF_VARS.ms.fd''
                          else Join (ovmfPath e) ''OVMF_VARS.fd'')
       in if \<not> PathExists e srcOvmfFile
          then (Some (Errorf (''Required EFI firmware settings file missing: '' @ srcOvmfFile)), s)
          else (let w1 = emit (NvramRemoved (getNvramPath e)) w in
                case FileCopy e srcOvmfFile (getNvramPath e) of
                  Some err \<Rightarrow> (Some err, (vm, w1))
                | None \<Rightarrow> (None, (vm, emit (NvramCopied srcOvmfFile (getNvramPath e)) w1)))))"

section \<open>Shutdown and Stop\<close>

text \<open>
  The polling goroutine of \<^verbatim>\<open>Shutdown\<close>: one status query per round, 500ms apart, until
  the instance is seen not running. The result is the number of sessions opened once the
  instance was seen stopped, or \<open>None\<close> when it was still running after the given number of
  rounds.
\<close>

fun poll_stopped :: "env \<Rightarrow> nat \<Rightarrow> nat \<Rightarrow> nat option" where
  "poll_stopped e n 0 = None"
| "poll_stopped e n (Suc rounds) =
     (if \<not> IsRunning (monitor_at e n) then Some (Suc n) else poll_stopped e (Suc n) rounds)"

text \<open>The steps that follow a completed shutdown or stop.\<close>

definition stop_cleanup :: "env \<Rightarrow> state \<Rightarrow> state" where
  "stop_cleanup e s =
    (let s1 = cleanupDevices e s;
         s2 = emit_s (FileRemoved (pidFilePath e)) s1;
         s3 = emit_s (FileRemoved (getMonitorPath e)) s2
     in snd (unmount e s3))"

text \<open>
  One session with the monitor that sends a command: the error when the socket, the
  handshake or the command fails.
\<close>

definition monitor_command :: "env \<Rightarrow> string \<Rightarrow> world \<Rightarrow> error option \<times> world" where
  "monitor_command e cmd w =
    (let mon = monitor_at e (sessions w);
         w1 = w\<lparr>sessions := Suc (sessions w)\<rparr>
     in if \<not> socket_ok mon then (Some (Errorf ''monitor socket unavailable''), w1)
        else if \<not> connect_ok mon then (Some (Errorf ''monitor handshake failed''), w1)
        else (case run_reply mon of
                None \<Rightarrow> (Some (Errorf ''monitor command failed''), w1)
              | Some reply \<Rightarrow> (None, emit (QmpCommand cmd) w1)))"

text \<open>
  \<^verbatim>\<open>Shutdown\<close>. With a positive timeout, the \<^verbatim>\<open>select\<close> returns as soon as the polling
  goroutine has seen the instance stopped or the timer has fired; how many polling rounds
  fit before the timer fires is the environment's. Without a timeout the call blocks
  until the instance is seen stopped: \<open>None\<close> says that it is still blocked after the
  given number of rounds.
\<close>

definition Shutdown :: "env \<Rightarrow> int \<Rightarrow> nat \<Rightarrow> state \<Rightarrow> (error option \<times> state) option" where
  "Shutdown e timeout rounds s =
    (case s of (vm, w) \<Rightarrow>
      (let (running, w1) = IsRunning_now e w in
       if \<not> running then Some (Some (Errorf ''The instance is already stopped''), (vm, w1))
       else (case monitor_command e ''system_powerdown'' w1 of
           (Some err, w2) \<Rightarrow> Some (Some err, (vm, w2))
         | (None, w2) \<Rightarrow>
            (if timeout > 0
             then (case poll_stopped e (sessions w2) (polls_before_timeout e timeout) of
                 Some n \<Rightarrow> Some (None, (vm, w2\<lparr>sessions := n\<rparr>))
               | None \<Rightarrow> Some (Some (Errorf ''Instance was not shutdown after timeout''),
                                (vm, w2\<lparr>sessions := sessions w2 + polls_before_timeout e timeout\<rparr>)))
             else (case poll_stopped e (sessions w2) rounds of
                 None \<Rightarrow> None
               | Some n \<Rightarrow> Some (None, stop_cleanup e (vm, w2\<lparr>sessions := n\<rparr>)))))))"

text \<open>\<^verbatim>\<open>strings.TrimSpace\<close> on ASCII white space.\<close>

definition is_space :: "char \<Rightarrow> bool" where
  "is_space c = (c \<in> set [CHR '' '', CHR 0x09, CHR 0x0A, CHR 0x0B, CHR 0x0C, CHR 0x0D])"

definition TrimSpace :: "string \<Rightarrow> string" where
  "TrimSpace s = rev (dropWhile is_space (rev (dropWhile is_space s)))"

definition pid :: "env \<Rightarrow> error option \<times> int" where
  "pid e =
    (case ReadFile_pid e of
       NotExist err \<Rightarrow> (None, 0)
     | ReadError err \<Rightarrow> (Some err, - 1)
     | Content pidStr \<Rightarrow>
        (case Atoi e (TrimSpace pidStr) of
           Inl err \<Rightarrow> (Some err, - 1)
         | Inr p \<Rightarrow> (None, p)))"

text \<open>
  The loop of \<^verbatim>\<open>Stop\<close> that waits for the process to exit: \<open>True\<close> when the process
  directory is gone within the given number of rounds.
\<close>

fun wait_exit :: "env \<Rightarrow> nat \<Rightarrow> nat \<Rightarrow> bool" where
  "wait_exit e i 0 = False"
| "wait_exit e i (Suc rounds) = (if proc_exists e i then wait_exit e (Suc i) rounds else True)"

definition Stop :: "env \<Rightarrow> bool \<Rightarrow> nat \<Rightarrow> state \<Rightarrow> (error option \<times> state) option" where
  "Stop e stateful' rounds s =
    (case s of (vm, w) \<Rightarrow>
      if stateful' then Some (Some (Errorf ''Stateful stop isn't supported for VMs at this time''), s)
      else
      (let (running, w1) = IsRunning_now e w in
       if \<not> running then Some (Some (Errorf ''Instance is not running''), (vm, w1))
       else (case monitor_command e ''quit'' w1 of
           (Some err, w2) \<Rightarrow> Some (Some err, (vm, w2))
         | (None, w2) \<Rightarrow>
            (case pid e of
               (Some err, p) \<Rightarrow> Some (Some err, (vm, w2))
             | (None, p) \<Rightarrow>
                if p < 0 then Some (None, (vm, w2))
                else if wait_exit e 0 rounds then Some (None, stop_cleanup e (vm, w2))
                else None))))"

section \<open>Start\<close>

text \<open>
  Modelled from the spec: the helper that loads a kernel module is not part of the
  sources at hand; it ensures that the module is loaded: nothing is done when it is
  loaded already, otherwise the module is loaded or the call fails.
\<close>

definition LoadModule :: "env \<Rightarrow> string \<Rightarrow> world \<Rightarrow> error option \<times> world" where
  "LoadModule e module w =
    (if module \<in> set (modules w) then (None, w)
     else (case modprobe e module of
             Some err \<Rightarrow> (Some err, w)
           | None \<Rightarrow> (None, emit (Modprobe module) (w\<lparr>modules := module # modules w\<rparr>))))"

text \<open>The architecture-specific base options (two \<^verbatim>\<open>[global]\<close> sections for x86_64).\<close>

definition x86_conf :: string where
  \<open>x86_conf = concat (map (\<lambda>l. l @ [CHR 0x0A])
     [[], ''[global]'', ''driver = "ICH9-LPC"'', ''property = "disable_s3"'', ''value = "1"'', [],
      ''[global]'', ''driver = "ICH9-LPC"'', ''property = "disable_s4"'', ''value = "1"''])\<close>

definition qemuArchConfig :: "env \<Rightarrow> vmQemu \<Rightarrow> error + string \<times> string \<times> string" where
  "qemuArchConfig e vm =
    (if architecture vm = ARCH_64BIT_INTEL_X86 e then Inr (''qemu-system-x86_64'', ''q35'', x86_conf)
     else if architecture vm = ARCH_64BIT_ARMV8_LITTLE_ENDIAN e then Inr (''qemu-system-aarch64'', ''virt'', [])
     else Inl (Errorf ''Architecture isn't supported for virtual machines''))"

text \<open>The loop of \<^verbatim>\<open>Start\<close> over the sorted devices, collecting the run configurations.\<close>

fun start_devices :: "env \<Rightarrow> devices \<Rightarrow> RunConfig list \<Rightarrow> state \<Rightarrow> (error + RunConfig list) \<times> state" where
  "start_devices e [] devConfs s = (Inr devConfs, s)"
| "start_devices e ((devName, devConfig) # devs) devConfs s =
    (case deviceStart e devName devConfig False s of
       (Inl err, s') \<Rightarrow> (Inl (Wrap err (''Failed to start device '' @ devName)), s')
     | (Inr None, s') \<Rightarrow> start_devices e devs devConfs s'
     | (Inr (Some runConf), s') \<Rightarrow> start_devices e devs (devConfs @ [runConf]) s')"

text \<open>\<^verbatim>\<open>strings.Split\<close> on a one-character separator.\<close>

fun Split :: "string \<Rightarrow> char \<Rightarrow> string list" where
  "Split [] c = [[]]"
| "Split (x # xs) c =
    (if x = c then [] # Split xs c
     else (case Split xs c of [] \<Rightarrow> [[x]] | y # ys \<Rightarrow> (x # y) # ys))"

text \<open>The directories that \<^verbatim>\<open>Start\<close> creates, in order, until one fails.\<close>

fun mkdirs :: "env \<Rightarrow> string list \<Rightarrow> world \<Rightarrow> error option \<times> world" where
  "mkdirs e [] w = (None, w)"
| "mkdirs e (d # ds) w =
    (case MkdirAll_result e d of
       Some err \<Rightarrow> (Some err, w)
     | None \<Rightarrow> mkdirs e ds (emit (MkdirAll d) w))"

text \<open>The steps of \<^verbatim>\<open>Start\<close> from the devices on: machine description and launch.\<close>

definition launch :: "env \<Rightarrow> string \<Rightarrow> state \<Rightarrow> error option \<times> state" where
  "launch e vmUUID s =
    (case start_devices e (Sorted e (expandedDevices (fst s))) [] s of
       (Inl err, s1) \<Rightarrow> (Some err, s1)
     | (Inr devConfs, s1) \<Rightarrow>
        (case qemuArchConfig e (fst s1) of
           Inl err \<Rightarrow> (Some err, s1)
         | Inr (qemuBinary, qemuType, qemuConfig) \<Rightarrow>
            (case generateQemuConfigFile e qemuType qemuConfig devConfs s1 of
               (Inl err, s2) \<Rightarrow> (Some err, s2)
             | (Inr (confFile, content), s2) \<Rightarrow>
                (case LookPath e qemuBinary of
                   Some err \<Rightarrow> (Some err, s2)
                 | None \<Rightarrow>
                    (let vm = fst s2;
                         args = [''-name'', name vm, ''-uuid'', vmUUID, ''-daemonize'', ''-cpu'', ''host'',
                                 ''-nographic'', ''-serial'', ''chardev:console'', ''-nodefaults'',
                                 ''-readconfig'', confFile, ''-pidfile'', pidFilePath e];
                         args = (if IsTrue e (get (expandedConfig vm) ''limits.memory.hugepages'')
                                 then args @ [''-mem-path'', ''/dev/hugepages/'', ''-mem-prealloc'']
                                 else args);
                         args = (if get (expandedConfig vm) ''raw.qemu'' \<noteq> []
                                 then args @ Split (get (expandedConfig vm) ''raw.qemu'') CHR '' ''
                                 else args)
                     in case RunCommand e qemuBinary args of
                          Some err \<Rightarrow> (Some err, s2)
                        | None \<Rightarrow> (None, emit_s (ProcessLaunched qemuBinary args) s2))))))"

text \<open>
  The steps of \<^verbatim>\<open>Start\<close> that follow the running-state check. The generation of the
  config share is one step of the environment.
\<close>

definition start_instance :: "env \<Rightarrow> state \<Rightarrow> error option \<times> state" where
  "start_instance e s =
    (case mount e s of
       (Inl err, s1) \<Rightarrow> (Some err, s1)
     | (Inr ourMount, s1) \<Rightarrow>
        (case generateConfigShare_result e of
           Some err \<Rightarrow> (Some err, s1)
         | None \<Rightarrow>
            (case mkdirs e [LogPath e, DevicesPath e, ShmountsPath e] (emit ConfigShareWritten (snd s1)) of
               (Some err, w2) \<Rightarrow> (Some err, (fst s1, w2))
             | (None, w2) \<Rightarrow>
                (let s2 = (fst s1, w2);
                     vmUUID = get (localConfig (fst s2)) ''volatile.vm.uuid'';
                     (vmUUID, s3) = (if vmUUID = []
                                     then (uuid_New e, snd (VolatileSet e [(''volatile.vm.uuid'', uuid_New e)] s2))
                                     else (vmUUID, s2))
                 in case (if \<not> PathExists e (getNvramPath e) then setupNvram e s3 else (None, s3)) of
                      (Some err, s4) \<Rightarrow> (Some err, s4)
                    | (None, s4) \<Rightarrow> launch e vmUUID s4))))"

text \<open>
  \<^verbatim>\<open>Start\<close>: the kernel module is loaded first, then the running state is checked.
\<close>

definition Start :: "env \<Rightarrow> bool \<Rightarrow> state \<Rightarrow> error option \<times> state" where
  "Start e stateful' s =
    (case s of (vm, w) \<Rightarrow>
      (case LoadModule e ''vhost_vsock'' w of
         (Some err, w1) \<Rightarrow> (Some err, (vm, w1))
       | (None, w1) \<Rightarrow>
          (let (running, w2) = IsRunning_now e w1 in
           if running then (Some (Errorf ''The instance is already running''), (vm, w2))
           else start_instance e (vm, w2))))"

section \<open>Update\<close>

text \<open>
  The arguments of \<^verbatim>\<open>Update\<close> that it reads. A \<^verbatim>\<open>nil\<close> map or slice is \<open>None\<close>.
\<close>

record InstanceArgs =
  arg_Architecture :: int
  arg_Config :: "config option"
  arg_Description :: string
  arg_Devices :: "devices option"
  arg_Ephemeral :: bool
  arg_Profiles :: "string list option"
  arg_Project :: string
  arg_ExpiryDate :: int

text \<open>The sane defaults for unset keys.\<close>

definition set_defaults :: "vmQemu \<Rightarrow> InstanceArgs \<Rightarrow> InstanceArgs" where
  "set_defaults vm args =
     args\<lparr>arg_Project := (if arg_Project args = [] then ''default'' else arg_Project args),
          arg_Architecture := (if arg_Architecture args = 0 then architecture vm else arg_Architecture args),
          arg_Config := (case arg_Config args of None \<Rightarrow> Some [] | Some c \<Rightarrow> Some c),
          arg_Devices := (case arg_Devices args of None \<Rightarrow> Some [] | Some d \<Rightarrow> Some d),
          arg_Profiles := (case arg_Profiles args of None \<Rightarrow> Some [] | Some p \<Rightarrow> Some p)\<rparr>"

definition args_Config :: "InstanceArgs \<Rightarrow> config" where
  "args_Config args = (case arg_Config args of None \<Rightarrow> [] | Some c \<Rightarrow> c)"

definition args_Devices :: "InstanceArgs \<Rightarrow> devices" where
  "args_Devices args = (case arg_Devices args of None \<Rightarrow> [] | Some d \<Rightarrow> d)"

definition args_Profiles :: "InstanceArgs \<Rightarrow> string list" where
  "args_Profiles args = (case arg_Profiles args of None \<Rightarrow> [] | Some p \<Rightarrow> p)"

text \<open>The loop that validates the new profiles.\<close>

fun check_profiles :: "string list \<Rightarrow> string list \<Rightarrow> string list \<Rightarrow> error option" where
  "check_profiles known [] checkedProfiles = None"
| "check_profiles known (p # ps) checkedProfiles =
    (if \<not> StringInSlice p known then Some (Errorf (''Requested profile '' @ p @ '' doesn't exist''))
     else if StringInSlice p checkedProfiles then Some (Errorf ''Duplicate profile found in request'')
     else check_profiles known ps (checkedProfiles @ [p]))"

text \<open>
  One of the two loops that check that volatile and image keys were not modified: every
  entry of the first map is compared with the second map's value under its key.
\<close>

fun check_reserved :: "config \<Rightarrow> config \<Rightarrow> error option" where
  "check_reserved [] other = None"
| "check_reserved ((k, v) # rest) other =
    (if HasPrefix k ''volatile.'' \<and> get other k \<noteq> v then Some (Errorf ''Volatile keys are read-only'')
     else if HasPrefix k ''image.'' \<and> get other k \<noteq> v then Some (Errorf ''Image keys are read-only'')
     else check_reserved rest other)"

definition check_userRequested :: "vmQemu \<Rightarrow> config \<Rightarrow> error option" where
  "check_userRequested vm config =
    (case check_reserved config (localConfig vm) of
       Some err \<Rightarrow> Some err
     | None \<Rightarrow> check_reserved (localConfig vm) config)"

text \<open>The validation of the arguments, before anything is changed.\<close>

definition validate_args :: "env \<Rightarrow> vmQemu \<Rightarrow> InstanceArgs \<Rightarrow> bool \<Rightarrow> error option" where
  "validate_args e vm args userRequested =
    (case containerValidConfig e (args_Config args) False of
       Some err \<Rightarrow> Some (Wrap err ''Invalid config'')
     | None \<Rightarrow>
    (case instanceValidDevices e (args_Devices args) False of
       Some err \<Rightarrow> Some (Wrap err ''Invalid devices'')
     | None \<Rightarrow>
    (case Profiles e (arg_Project args) of
       Inl err \<Rightarrow> Some (Wrap err ''Failed to get profiles'')
     | Inr known \<Rightarrow>
    (case check_profiles known (args_Profiles args) [] of
       Some err \<Rightarrow> Some err
     | None \<Rightarrow>
    (case (if arg_Architecture args \<noteq> 0 then ArchitectureName e (arg_Architecture args) else Inr []) of
       Inl err \<Rightarrow> Some (Errorf (''Invalid architecture ID: '' @ error_message err))
     | Inr archName \<Rightarrow>
        (if userRequested then check_userRequested vm (args_Config args) else None))))))"

text \<open>
  Modelled from the spec: the expansion of profiles is not part of the sources at hand;
  the expanded view merges the instance-local settings over the profile-level settings,
  local taking precedence (and a later profile over an earlier one).
\<close>

definition ProfilesExpandConfig :: "config \<Rightarrow> Profile list \<Rightarrow> config" where
  "ProfilesExpandConfig config profs =
     fold (\<lambda>(k, v) expanded. set_key k v expanded) (concat (map profile_config profs) @ config) []"

definition ProfilesExpandDevices :: "devices \<Rightarrow> Profile list \<Rightarrow> devices" where
  "ProfilesExpandDevices devs profs =
     fold (\<lambda>(k, d) expanded. set_key k d expanded) (concat (map profile_devices profs) @ devs) []"

text \<open>
  \<^verbatim>\<open>expandConfig\<close> and \<^verbatim>\<open>expandDevices\<close>: the profiles are fetched when none are given
  and the instance has profiles. The two fetches are two calls of the database.
\<close>

definition expandConfig :: "env \<Rightarrow> Profile list option \<Rightarrow> vmQemu \<Rightarrow> error option \<times> vmQemu" where
  "expandConfig e profs vm =
    (case (if profs = None \<and> length (profiles vm) > 0 then ProfilesGet e False (project vm) (profiles vm)
           else Inr (case profs of None \<Rightarrow> [] | Some ps \<Rightarrow> ps)) of
       Inl err \<Rightarrow> (Some err, vm)
     | Inr ps \<Rightarrow> (None, vm\<lparr>expandedConfig := ProfilesExpandConfig (localConfig vm) ps\<rparr>))"

definition expandDevices :: "env \<Rightarrow> Profile list option \<Rightarrow> vmQemu \<Rightarrow> error option \<times> vmQemu" where
  "expandDevices e profs vm =
    (case (if profs = None \<and> length (profiles vm) > 0 then ProfilesGet e True (project vm) (profiles vm)
           else Inr (case profs of None \<Rightarrow> [] | Some ps \<Rightarrow> ps)) of
       Inl err \<Rightarrow> (Some err, vm)
     | Inr ps \<Rightarrow> (None, vm\<lparr>expandedDevices := ProfilesExpandDevices (localDevices vm) ps\<rparr>))"

text \<open>
  The diff of the configurations: one loop over the old expanded config and one over the
  new, collecting the keys whose values differ.
\<close>

fun diff_keys :: "config \<Rightarrow> config \<Rightarrow> config \<Rightarrow> string list \<Rightarrow> string list" where
  "diff_keys [] old new changedConfig = changedConfig"
| "diff_keys ((key, v) # rest) old new changedConfig =
     diff_keys rest old new
       (if get old key \<noteq> get new key \<and> \<not> StringInSlice key changedConfig
        then changedConfig @ [key] else changedConfig)"

definition changedConfig :: "config \<Rightarrow> config \<Rightarrow> string list" where
  "changedConfig oldExpandedConfig newExpandedConfig =
     diff_keys newExpandedConfig oldExpandedConfig newExpandedConfig
       (diff_keys oldExpandedConfig oldExpandedConfig newExpandedConfig [])"

text \<open>
  Modelled from the spec: the diff of two device sets is not part of the sources at hand.
  It compares the sets by name: a device of the old set that the new set does not hold
  unchanged is removed, a device of the new set that the old set does not hold unchanged
  is added; a device of both lists becomes an update when the two devices are equal once
  the fields given by the callback are left out. The changed fields are the fields that
  differ between the old and the new device of every added name.
\<close>

definition device_equal :: "config \<Rightarrow> config \<Rightarrow> bool" where
  "device_equal a b = list_all (\<lambda>k. map_of a k = map_of b k) (map fst a @ map fst b)"

definition Contains :: "devices \<Rightarrow> string \<Rightarrow> config \<Rightarrow> bool" where
  "Contains ds k d = (case map_of ds k of None \<Rightarrow> False | Some old \<Rightarrow> device_equal old d)"

definition deviceEqualsDiffKeys :: "config \<Rightarrow> config \<Rightarrow> string list" where
  "deviceEqualsDiffKeys old new =
     filter (\<lambda>k. map_of old k \<noteq> map_of new k) (remdups (map fst old @ map fst new))"

definition without_fields :: "string list \<Rightarrow> config \<Rightarrow> config" where
  "without_fields fs d = filter (\<lambda>(k, v). k \<notin> set fs) d"

definition Devices_Update ::
  "devices \<Rightarrow> devices \<Rightarrow> (config \<Rightarrow> config \<Rightarrow> string list) \<Rightarrow> devices \<times> devices \<times> devices \<times> string list" where
  "Devices_Update oldlist newlist updateFields =
    (let rmlist = filter (\<lambda>(k, d). \<not> Contains newlist k d) oldlist;
         addlist = filter (\<lambda>(k, d). \<not> Contains oldlist k d) newlist;
         allChangedKeys = concat (map (\<lambda>(k, d). deviceEqualsDiffKeys (get_device rmlist k) d) addlist);
         updatelist = filter (\<lambda>(k, d).
            (let oldDevice = get_device rmlist k; fs = updateFields oldDevice d
             in device_equal (without_fields fs oldDevice) (without_fields fs d))) addlist;
         updated = map fst updatelist
     in (filter (\<lambda>(k, d). k \<notin> set updated) rmlist,
         filter (\<lambda>(k, d). k \<notin> set updated) addlist,
         updatelist, allChangedKeys))"

text \<open>
  The callback that \<^verbatim>\<open>Update\<close> passes to the diff: the fields of the new device that
  can be updated in place, none when the type changes or no driver can be built.
\<close>

definition updateFields_of :: "env \<Rightarrow> config \<Rightarrow> config \<Rightarrow> string list" where
  "updateFields_of e oldDevice newDevice =
    (if get oldDevice ''type'' \<noteq> get newDevice ''type'' \<or> get oldDevice ''nictype'' \<noteq> get newDevice ''nictype''
     then []
     else (case device_New e [] newDevice of
             Loaded \<Rightarrow> snd (CanHotPlug e [] newDevice)
           | LoadedInvalid err \<Rightarrow> []
           | NotLoaded err \<Rightarrow> []))"

text \<open>The three loops of \<^verbatim>\<open>updateDevices\<close>.\<close>

fun remove_loop :: "env \<Rightarrow> bool \<Rightarrow> devices \<Rightarrow> devices \<Rightarrow> state \<Rightarrow> error option \<times> state" where
  "remove_loop e isRunning addDevices [] s = (None, s)"
| "remove_loop e isRunning addDevices ((devName, devConfig) # devs) s =
    (case (if isRunning then deviceStop e devName devConfig s else (None, s)) of
       (Some err, s1) \<Rightarrow>
         (if err = ErrUnsupportedDevType then remove_loop e isRunning addDevices devs s1
          else (Some (Wrap err (''Failed to stop device '' @ devName)), s1))
     | (None, s1) \<Rightarrow>
         (case deviceRemove devName devConfig of
            Some err \<Rightarrow>
              (if err \<noteq> ErrUnsupportedDevType
               then (Some (Wrap err (''Failed to remove device '' @ devName)), s1)
               else (case deviceResetVolatile e devName devConfig (get_device addDevices devName) s1 of
                       (Some err, s2) \<Rightarrow>
                         (Some (Wrap err (''Failed to reset volatile data for device '' @ devName)), s2)
                     | (None, s2) \<Rightarrow> remove_loop e isRunning addDevices devs s2))
          | None \<Rightarrow>
              (case deviceResetVolatile e devName devConfig (get_device addDevices devName) s1 of
                 (Some err, s2) \<Rightarrow>
                   (Some (Wrap err (''Failed to reset volatile data for device '' @ devName)), s2)
               | (None, s2) \<Rightarrow> remove_loop e isRunning addDevices devs s2)))"

fun add_loop :: "env \<Rightarrow> bool \<Rightarrow> devices \<Rightarrow> state \<Rightarrow> error option \<times> state" where
  "add_loop e isRunning [] s = (None, s)"
| "add_loop e isRunning ((devName, devConfig) # devs) s =
    (case deviceAdd devName devConfig of
       Some err \<Rightarrow>
         (if err = ErrUnsupportedDevType then add_loop e isRunning devs s
          else (Some (Wrap err (''Failed to add device '' @ devName)), s))
     | None \<Rightarrow>
         (if isRunning
          then (case deviceStart e devName devConfig isRunning s of
                  (Inl err, s1) \<Rightarrow>
                    (if err \<noteq> ErrUnsupportedDevType
                     then (Some (Wrap err (''Failed to start device '' @ devName)), s1)
                     else add_loop e isRunning devs s1)
                | (Inr runConf, s1) \<Rightarrow> add_loop e isRunning devs s1)
          else add_loop e isRunning devs s))"

fun update_loop :: "env \<Rightarrow> bool \<Rightarrow> devices \<Rightarrow> devices \<Rightarrow> state \<Rightarrow> error option \<times> state" where
  "update_loop e isRunning oldExpandedDevices [] s = (None, s)"
| "update_loop e isRunning oldExpandedDevices ((devName, devConfig) # devs) s =
    (case deviceUpdate e devName devConfig oldExpandedDevices isRunning s of
       (Some err, s1) \<Rightarrow>
         (if err \<noteq> ErrUnsupportedDevType
          then (Some (Wrap err (''Failed to update device '' @ devName)), s1)
          else update_loop e isRunning oldExpandedDevices devs s1)
     | (None, s1) \<Rightarrow> update_loop e isRunning oldExpandedDevices devs s1)"

definition updateDevices ::
  "env \<Rightarrow> devices \<Rightarrow> devices \<Rightarrow> devices \<Rightarrow> devices \<Rightarrow> state \<Rightarrow> error option \<times> state" where
  "updateDevices e removeDevices addDevices updDevices oldExpandedDevices s =
    (let (isRunning, w1) = IsRunning_now e (snd s);
         s1 = (fst s, w1)
     in case remove_loop e isRunning addDevices (Reversed e removeDevices) s1 of
          (Some err, s2) \<Rightarrow> (Some err, s2)
        | (None, s2) \<Rightarrow>
           (case add_loop e isRunning (Sorted e addDevices) s2 of
              (Some err, s3) \<Rightarrow> (Some err, s3)
            | (None, s3) \<Rightarrow> update_loop e isRunning oldExpandedDevices (Sorted e updDevices) s3))"

text \<open>
  The interfaces that the network-asset tracker is told about: the name, the hardware
  address and the subnets of every network device with a subnet.
\<close>

record ContainerInterface =
  if_Name :: string
  if_MACAddress :: string
  if_Subnets :: "(string \<times> string) list"

fun maasInterfaces :: "env \<Rightarrow> devices \<Rightarrow> ContainerInterface list \<Rightarrow> state \<Rightarrow> (error + ContainerInterface list) \<times> state" where
  "maasInterfaces e [] interfaces s = (Inr interfaces, s)"
| "maasInterfaces e ((k, m) # devs) interfaces s =
    (if get m ''type'' \<noteq> ''nic'' then maasInterfaces e devs interfaces s
     else if get m ''maas.subnet.ipv4'' = [] \<and> get m ''maas.subnet.ipv6'' = []
     then maasInterfaces e devs interfaces s
     else (case fillNetworkDevice e k m s of
             (Inl err, s1) \<Rightarrow> (Inl err, s1)
           | (Inr m, s1) \<Rightarrow>
              (let subnets = (if get m ''maas.subnet.ipv4'' \<noteq> []
                              then [(get m ''maas.subnet.ipv4'', get m ''ipv4.address'')] else []);
                   subnets = (if get m ''maas.subnet.ipv6'' \<noteq> []
                              then subnets @ [(get m ''maas.subnet.ipv6'', get m ''ipv6.address'')] else subnets);
                   iface = \<lparr>if_Name = get m ''name'', if_MACAddress = get m ''hwaddr'', if_Subnets = subnets\<rparr>
               in maasInterfaces e devs (interfaces @ [iface]) s1)))"

definition maas_request :: "env \<Rightarrow> string \<Rightarrow> state \<Rightarrow> error option \<times> state" where
  "maas_request e call s =
    (case maas_call e call of
       Some err \<Rightarrow> (Some err, s)
     | None \<Rightarrow> (None, emit_s (MaasCall call) s))"

definition maasUpdate :: "env \<Rightarrow> devices option \<Rightarrow> state \<Rightarrow> error option \<times> state" where
  "maasUpdate e oldDevices s =
    (case maas_api_url e of
       Inl err \<Rightarrow> (Some err, s)
     | Inr maasURL \<Rightarrow>
        if maasURL = [] then (None, s)
        else (case maasInterfaces e (expandedDevices (fst s)) [] s of
            (Inl err, s1) \<Rightarrow> (Some err, s1)
          | (Inr interfaces, s1) \<Rightarrow>
             (case (case oldDevices of
                      None \<Rightarrow> (Inr [], s1)
                    | Some devs \<Rightarrow> maasInterfaces e devs [] s1) of
                (Inl err, s2) \<Rightarrow> (Some err, s2)
              | (Inr oldInterfaces, s2) \<Rightarrow>
                 if length interfaces = 0 \<and> length oldInterfaces = 0 then (None, s2)
                 else if \<not> maas_available e
                 then (Some (Errorf ''Can't perform the operation because MAAS is currently unavailable''), s2)
                 else (case maas_DefinedContainer e of
                     Inl err \<Rightarrow> (Some err, s2)
                   | Inr exists \<Rightarrow>
                      if exists
                      then (if length interfaces = 0 \<and> length oldInterfaces > 0
                            then maas_request e ''DeleteContainer'' s2
                            else maas_request e ''UpdateContainer'' s2)
                      else maas_request e ''CreateContainer'' s2))))"

text \<open>
  Modelled from the spec: the statements of the final transaction are not part of the
  sources at hand; a snapshot persists its description and expiry date only, a full
  instance its config, profiles, devices and core fields. The transaction commits as a
  whole or leaves the database as it was.
\<close>

definition persist :: "env \<Rightarrow> state \<Rightarrow> error option \<times> state" where
  "persist e s =
    (case s of (vm, w) \<Rightarrow>
      (case tx_InstanceUpdate e of
         Some err \<Rightarrow> (Some (Wrap err ''Failed to update database''), s)
       | None \<Rightarrow>
          (if snapshot vm
           then (None, (vm, w\<lparr>db := (db w)\<lparr>db_description := description vm,
                                             db_expiryDate := expiryDate vm\<rparr>\<rparr>))
           else (None, (vm, w\<lparr>db := (db w)\<lparr>db_config := localConfig vm,
                                             db_profiles := profiles vm,
                                             db_devices := localDevices vm,
                                             db_description := description vm,
                                             db_architecture := architecture vm,
                                             db_ephemeral := ephemeral vm,
                                             db_expiryDate := expiryDate vm\<rparr>\<rparr>)))))"

text \<open>The fields that \<^verbatim>\<open>Update\<close> replaces by the arguments, and the deferred revert.\<close>

definition apply_args :: "InstanceArgs \<Rightarrow> vmQemu \<Rightarrow> vmQemu" where
  "apply_args args vm =
     vm\<lparr>description := arg_Description args,
        architecture := arg_Architecture args,
        ephemeral := arg_Ephemeral args,
        localConfig := args_Config args,
        localDevices := args_Devices args,
        profiles := args_Profiles args,
        expiryDate := arg_ExpiryDate args\<rparr>"

definition undo_changes :: "vmQemu \<Rightarrow> vmQemu \<Rightarrow> vmQemu" where
  "undo_changes old vm =
     vm\<lparr>description := description old,
        architecture := architecture old,
        ephemeral := ephemeral old,
        expandedConfig := expandedConfig old,
        expandedDevices := expandedDevices old,
        localConfig := localConfig old,
        localDevices := localDevices old,
        profiles := profiles old,
        expiryDate := expiryDate old\<rparr>"

text \<open>
  The steps of \<^verbatim>\<open>Update\<close> between the speculative change of the fields and the final
  transaction: expansion, the two diffs, validation of the expanded state, the device
  diff applied, the network-asset tracker and the firmware settings.
\<close>

definition apply_update :: "env \<Rightarrow> vmQemu \<Rightarrow> state \<Rightarrow> error option \<times> state" where
  "apply_update e old s =
    (case s of (vm0, w) \<Rightarrow>
    (case expandConfig e None vm0 of
       (Some err, vm1) \<Rightarrow> (Some (Wrap err ''Expand config''), (vm1, w))
     | (None, vm1) \<Rightarrow>
    (case expandDevices e None vm1 of
       (Some err, vm) \<Rightarrow> (Some (Wrap err ''Expand devices''), (vm, w))
     | (None, vm) \<Rightarrow>
       (let changed = changedConfig (expandedConfig old) (expandedConfig vm);
            (removeDevices, addDevices, updDevices, updateDiff) =
               Devices_Update (expandedDevices old) (expandedDevices vm) (updateFields_of e)
        in case containerValidConfig e (expandedConfig vm) True of
             Some err \<Rightarrow> (Some (Wrap err ''Invalid expanded config''), (vm, w))
           | None \<Rightarrow>
          (case instanceValidDevices e (expandedDevices vm) True of
             Some err \<Rightarrow> (Some (Wrap err ''Invalid expanded devices''), (vm, w))
           | None \<Rightarrow>
          (case updateDevices e removeDevices addDevices updDevices (expandedDevices old) (vm, w) of
             (Some err, s1) \<Rightarrow> (Some err, s1)
           | (None, s1) \<Rightarrow>
              (let updateMAAS = list_ex (\<lambda>key. StringInSlice key updateDiff)
                                  [''maas.subnet.ipv4'', ''maas.subnet.ipv6'', ''ipv4.address'', ''ipv6.address'']
               in case (if \<not> snapshot (fst s1) \<and> updateMAAS
                        then maasUpdate e (Some (expandedDevices old)) s1 else (None, s1)) of
                    (Some err, s2) \<Rightarrow> (Some err, s2)
                  | (None, s2) \<Rightarrow>
                     (if StringInSlice ''security.secureboot'' changed then setupNvram e s2
                      else (None, s2)))))))))"

text \<open>
  The name of a snapshot is the parent's name, the delimiter \<^verbatim>\<open>/\<close> and the snapshot's
  name; a name without the delimiter has an empty snapshot part.
\<close>

definition InstanceGetParentAndSnapshotName :: "string \<Rightarrow> string \<times> string" where
  "InstanceGetParentAndSnapshotName n =
     (takeWhile (\<lambda>c. c \<noteq> CHR ''/'') n, drop 1 (dropWhile (\<lambda>c. c \<noteq> CHR ''/'') n))"

text \<open>The steps after the final transaction: the backup file and the notification.\<close>

definition finish_update :: "env \<Rightarrow> state \<Rightarrow> error option \<times> state" where
  "finish_update e s =
    (case (case writeBackupFile e of
             None \<Rightarrow> (None, emit_s BackupFileWritten s)
           | Some (err, isNotExist) \<Rightarrow>
               (if \<not> isNotExist then (Some (Wrap err ''Failed to write backup file''), s) else (None, s))) of
       (Some err, s1) \<Rightarrow> (Some err, s1)
     | (None, s1) \<Rightarrow>
        (let vm = fst s1;
             (parentName, snapName) = InstanceGetParentAndSnapshotName (name vm);
             endpoint = (if snapshot vm
                         then ''/1.0/virtual-machines/'' @ parentName @ ''/snapshots/'' @ snapName
                         else ''/1.0/virtual-machines/'' @ name vm)
         in (None, emit_s (Lifecycle ''virtual-machine-updated'' endpoint) s1)))"

text \<open>
  \<^verbatim>\<open>Update\<close>. The copies of the old fields cannot be told apart from the old struct
  itself; when the deferred function runs with \<^verbatim>\<open>undoChanges\<close> still set, it puts them
  back. The copies are made by one step of the environment that may fail.
\<close>

definition Update :: "env \<Rightarrow> InstanceArgs \<Rightarrow> bool \<Rightarrow> state \<Rightarrow> error option \<times> state" where
  "Update e args0 userRequested s =
    (case s of (vm, w0) \<Rightarrow>
      (let (running, w) = IsRunning_now e w0 in
       if running then (Some (Errorf ''Update whilst running not supported''), (vm, w))
       else
        (let args = set_defaults vm args0 in
         case validate_args e vm args userRequested of
           Some err \<Rightarrow> (Some err, (vm, w))
         | None \<Rightarrow>
            (case DeepCopy_result e of
               Some err \<Rightarrow> (Some err, (vm, w))
             | None \<Rightarrow>
                (let old = vm in
                 case apply_update e old (apply_args args vm, w) of
                   (Some err, (vm1, w1)) \<Rightarrow> (Some err, (undo_changes old vm1, w1))
                 | (None, s1) \<Rightarrow>
                    (case persist e s1 of
                       (Some err, (vm2, w2)) \<Rightarrow> (Some err, (undo_changes old vm2, w2))
                     | (None, s2) \<Rightarrow>
                        (case finish_update e s2 of
                           (Some err, (vm3, w3)) \<Rightarrow> (Some err, (undo_changes old vm3, w3))
                         | (None, s3) \<Rightarrow> (None, s3))))))))"

section \<open>Frames\<close>

text \<open>The events of the firmware settings store.\<close>

fun is_nvram :: "host_event \<Rightarrow> bool" where
  "is_nvram (NvramRemoved p) = True"
| "is_nvram (NvramCopied src p) = True"
| "is_nvram ev = False"

text \<open>
  Two states of the database agree up to volatile keys when every field but the config
  is the same and the config holds the same value under every key outside the
  \<^verbatim>\<open>volatile.\<close> namespace.
\<close>

definition volatile_frame :: "database \<Rightarrow> database \<Rightarrow> bool" where
  "volatile_frame d d' \<longleftrightarrow>
     db_description d' = db_description d \<and> db_architecture d' = db_architecture d
     \<and> db_ephemeral d' = db_ephemeral d \<and> db_expiryDate d' = db_expiryDate d
     \<and> db_devices d' = db_devices d \<and> db_profiles d' = db_profiles d
     \<and> (\<forall>k. \<not> HasPrefix k ''volatile.'' \<longrightarrow> map_of (db_config d') k = map_of (db_config d) k)"

text \<open>
  A step is quiet when it opens sessions and appends events other than those of the
  firmware settings store, keeps the kernel modules, and changes the database at most in
  volatile keys.
\<close>

definition quiet :: "world \<Rightarrow> world \<Rightarrow> bool" where
  "quiet w w' \<longleftrightarrow>
     sessions w \<le> sessions w' \<and> modules w' = modules w
     \<and> (\<exists>evs. host w' = host w @ evs \<and> list_all (\<lambda>ev. \<not> is_nvram ev) evs)
     \<and> volatile_frame (db w) (db w')"

section \<open>Concrete inputs\<close>

text \<open>Replies of the control channel: the reply decodes to itself unless it is garbage.\<close>

definition decode_plain :: "string \<Rightarrow> string option" where
  "decode_plain raw = (if raw = ''garbage'' then None else Some raw)"

definition mon_no_socket :: monitor where
  "mon_no_socket = \<lparr>socket_ok = False, connect_ok = False, run_reply = None, decode_status = decode_plain\<rparr>"

definition mon_handshake_fails :: monitor where
  "mon_handshake_fails = \<lparr>socket_ok = True, connect_ok = False, run_reply = None, decode_status = decode_plain\<rparr>"

definition mon_command_fails :: monitor where
  "mon_command_fails = \<lparr>socket_ok = True, connect_ok = True, run_reply = None, decode_status = decode_plain\<rparr>"

definition mon_garbage :: monitor where
  "mon_garbage = \<lparr>socket_ok = True, connect_ok = True, run_reply = Some ''garbage'', decode_status = decode_plain\<rparr>"

definition mon_running :: monitor where
  "mon_running = \<lparr>socket_ok = True, connect_ok = True, run_reply = Some ''running'', decode_status = decode_plain\<rparr>"

definition mon_paused :: monitor where
  "mon_paused = \<lparr>socket_ok = True, connect_ok = True, run_reply = Some ''paused'', decode_status = decode_plain\<rparr>"

text \<open>An environment in which the instance is stopped and every collaborator succeeds.\<close>

definition always_stopped :: "nat \<Rightarrow> monitor" where
  "always_stopped n = mon_no_socket"

definition always_running :: "nat \<Rightarrow> monitor" where
  "always_running n = mon_running"

definition keep_order :: "string \<times> config \<Rightarrow> string \<times> config \<Rightarrow> bool" where
  "keep_order a b = False"

definition truthy :: "string \<Rightarrow> bool" where
  "truthy s = (s \<in> set [''true'', ''1'', ''yes'', ''on''])"

definition atoi_small :: "string \<Rightarrow> error + int" where
  "atoi_small s = (if s = ''1'' then Inr 1 else if s = ''2'' then Inr 2 else if s = ''4242'' then Inr 4242
                   else Inl (Errorf ''invalid syntax''))"

definition calm :: env where
  "calm = \<lparr>
     monitor_at = always_stopped,
     LXD_OVMF_PATH = [],
     LogPath_of = ''/var/log/lxd/vm1'',
     Path_of = ''/var/lib/lxd/virtual-machines/vm1'',
     DevicesPath_of = ''/var/lib/lxd/devices/vm1'',
     ShmountsPath_of = ''/var/lib/lxd/shmounts/vm1'',
     PathExists = (\<lambda>p. True),
     FileCopy = (\<lambda>src dst. None),
     modprobe = (\<lambda>m. None),
     GetPoolByInstance = Inr ''default'',
     MountInstance_result = Inr True,
     UnmountInstance_result = Inr True,
     GetInstanceDisk = Inr ''/dev/zvol/default/vm1'',
     generateConfigShare_result = None,
     MkdirAll_result = (\<lambda>p. None),
     uuid_New = ''6ba7b810-9dad-11d1-80b4-00c04fd430c8'',
     LookPath = (\<lambda>p. None),
     RunCommand = (\<lambda>p args. None),
     WriteFile = (\<lambda>p. None),
     ParseByteSizeString = (\<lambda>s. Inr 1073741824),
     Atoi = atoi_small,
     ReadFile_pid = Content ''4242'',
     proc_exists = (\<lambda>i. False),
     polls_before_timeout = (\<lambda>t. 10),
     IsTrue = truthy,
     ARCH_64BIT_INTEL_X86 = 2,
     ARCH_64BIT_ARMV8_LITTLE_ENDIAN = 4,
     tx_ConfigUpdate = (\<lambda>changes. None),
     tx_updateKey = (\<lambda>k v. None),
     ContainerConfigGet_fails = (\<lambda>k. False),
     deviceNextInterfaceHWAddr = (\<lambda>k. Inr ''00:16:3e:00:00:01''),
     device_New = (\<lambda>n c. Loaded),
     CanHotPlug = (\<lambda>n c. (False, [])),
     driver_Start = (\<lambda>n c. \<lparr>volatile_saves = [], returns = Inr None\<rparr>),
     driver_Stop = (\<lambda>n c. \<lparr>volatile_saves = [], returns = Inr None\<rparr>),
     driver_Update = (\<lambda>n c old r. \<lparr>volatile_saves = [], returns = None\<rparr>),
     run_hook = (\<lambda>h. None),
     device_less = keep_order,
     containerValidConfig = (\<lambda>c expanded. None),
     instanceValidDevices = (\<lambda>d expanded. None),
     Profiles = (\<lambda>p. Inr [''default'']),
     ProfilesGet = (\<lambda>devs p ps. Inr []),
     ArchitectureName = (\<lambda>a. Inr ''x86_64''),
     DeepCopy_result = None,
     maas_api_url = Inr [],
     maas_available = False,
     maas_DefinedContainer = Inr False,
     maas_call = (\<lambda>c. None),
     tx_InstanceUpdate = None,
     writeBackupFile = None\<rparr>"

text \<open>
  An instance with a root disk and a bridged network device whose generated hardware
  address is held under its volatile key, and the world in which the database holds
  what the struct holds.
\<close>

definition nic_eth0 :: config where
  "nic_eth0 = [(''type'', ''nic''), (''nictype'', ''bridged''), (''parent'', ''lxdbr0'')]"

definition disk_root :: config where
  "disk_root = [(''type'', ''disk''), (''path'', ''/''), (''pool'', ''default'')]"

definition config1 :: config where
  "config1 = [(''limits.cpu'', ''1''), (''volatile.eth0.hwaddr'', ''00:16:3e:aa:bb:cc'')]"

definition config2 :: config where
  "config2 = [(''limits.cpu'', ''2''), (''volatile.eth0.hwaddr'', ''00:16:3e:aa:bb:cc'')]"

definition vm1 :: vmQemu where
  "vm1 = \<lparr>architecture = 2, snapshot = False, creationDate = 1000, lastUsedDate = 2000,
          ephemeral = False, inst_id = 7, project = ''default'', name = ''vm1'',
          description = ''a machine'', stateful = False,
          expandedConfig = config1, expandedDevices = [(''eth0'', nic_eth0), (''root'', disk_root)],
          localConfig = config1, localDevices = [(''eth0'', nic_eth0), (''root'', disk_root)],
          profiles = [], node = ''node1'', expiryDate = 0, storagePool = None\<rparr>"

definition db1 :: database where
  "db1 = \<lparr>db_description = ''a machine'', db_architecture = 2, db_ephemeral = False,
          db_expiryDate = 0, db_config = config1,
          db_devices = [(''eth0'', nic_eth0), (''root'', disk_root)], db_profiles = []\<rparr>"

definition world1 :: world where
  "world1 = \<lparr>db = db1, modules = [], host = [], sessions = 0\<rparr>"

text \<open>The same world with the vsock kernel module loaded, and arguments for \<^verbatim>\<open>Update\<close>.\<close>

definition world_loaded :: world where
  "world_loaded = world1\<lparr>modules := [''vhost_vsock'']\<rparr>"

definition always_handshake_fails :: "nat \<Rightarrow> monitor" where
  "always_handshake_fails n = mon_handshake_fails"

definition env_handshake_fails :: env where
  "env_handshake_fails = calm\<lparr>monitor_at := always_handshake_fails\<rparr>"

definition env_running :: env where
  "env_running = calm\<lparr>monitor_at := always_running\<rparr>"

text \<open>Scenario B: the only change is \<^verbatim>\<open>limits.cpu\<close> from "1" to "2".\<close>

definition args_cpu :: InstanceArgs where
  "args_cpu = \<lparr>arg_Architecture = 0, arg_Config = Some config2, arg_Description = ''a machine'',
                arg_Devices = Some [(''eth0'', nic_eth0), (''root'', disk_root)], arg_Ephemeral = False,
                arg_Profiles = None, arg_Project = [], arg_ExpiryDate = 0\<rparr>"

text \<open>The network device is dropped; nothing else changes.\<close>

definition args_drop_nic :: InstanceArgs where
  "args_drop_nic = \<lparr>arg_Architecture = 0, arg_Config = Some config1, arg_Description = ''a machine'',
                arg_Devices = Some [(''root'', disk_root)], arg_Ephemeral = False,
                arg_Profiles = None, arg_Project = [], arg_ExpiryDate = 0\<rparr>"

definition env_db_locked :: env where
  "env_db_locked = calm\<lparr>tx_InstanceUpdate := Some (Errorf ''database is locked'')\<rparr>"

text \<open>
  The instance is running when \<^verbatim>\<open>Shutdown\<close> checks and when the command is sent, and
  stopped from the first poll on.
\<close>

definition stops_after_command :: "nat \<Rightarrow> monitor" where
  "stops_after_command n = (if n < 2 then mon_running else mon_no_socket)"

definition env_shutdown :: env where
  "env_shutdown = calm\<lparr>monitor_at := stops_after_command\<rparr>"

text \<open>Run configurations: the root disk, and two disk devices with one mount each.\<close>

definition rc_root :: RunConfig where
  "rc_root = empty_RunConfig\<lparr>RootFS_Path := ''/var/lib/lxd/virtual-machines/vm1/rootfs''\<rparr>"

definition rc_data :: RunConfig where
  "rc_data = empty_RunConfig\<lparr>Mounts := [\<lparr>DevPath = ''/dev/sdb'', TargetPath = ''data''\<rparr>]\<rparr>"

definition rc_backup :: RunConfig where
  "rc_backup = empty_RunConfig\<lparr>Mounts := [\<lparr>DevPath = ''/dev/sdc'', TargetPath = ''backup''\<rparr>]\<rparr>"

text \<open>The \<^verbatim>\<open>scsi-id\<close> values of the file generated for a list of run configurations.\<close>

definition drive_ids :: "env \<Rightarrow> RunConfig list \<Rightarrow> state \<Rightarrow> int list" where
  "drive_ids e devConfs s =
    (case fst (generateQemuConfigFile e ''q35'' [] devConfs s) of
       Inl err \<Rightarrow> []
     | Inr (configPath, sb) \<Rightarrow> scsi_ids sb)"

text \<open>
  A hotplug device that filters by product id only, an event that matches it, and two
  versions of the host helpers: one that adds a mount for the device node, one that fails.
\<close>

definition usb_config :: config where
  "usb_config = [(''type'', ''unix-hotplug''), (''productid'', ''c52b'')]"

definition usb_add :: UnixHotplugEvent where
  "usb_add = \<lparr>Action = ''add'', Vendor = ''046d'', Product = ''c52b'', Path = ''/dev/bus/usb/001/004'',
              Major = 189, Minor = 3, UeventParts = [''add@/devices/usb1/1-2''], UeventLen = 22\<rparr>"

definition usb_other :: UnixHotplugEvent where
  "usb_other = usb_add\<lparr>Product := ''0001''\<rparr>"

definition setup_ok ::
  "string \<Rightarrow> string \<Rightarrow> string \<Rightarrow> config \<Rightarrow> 32 word \<Rightarrow> 32 word \<Rightarrow> string \<Rightarrow> bool \<Rightarrow> RunConfig \<Rightarrow> error + RunConfig" where
  "setup_ok devicesPath typePrefix deviceName cfg major minor path defaultMode runConf =
     Inr (runConf\<lparr>Mounts := Mounts runConf @ [\<lparr>DevPath = devicesPath @ ''/unix.'' @ deviceName, TargetPath = path\<rparr>]\<rparr>)"

definition setup_fails ::
  "string \<Rightarrow> string \<Rightarrow> string \<Rightarrow> config \<Rightarrow> 32 word \<Rightarrow> 32 word \<Rightarrow> string \<Rightarrow> bool \<Rightarrow> RunConfig \<Rightarrow> error + RunConfig" where
  "setup_fails devicesPath typePrefix deviceName cfg major minor path defaultMode runConf =
     Inl (Errorf ''mknod: operation not permitted'')"

definition remove_ok :: "string \<Rightarrow> string \<Rightarrow> string \<Rightarrow> string \<Rightarrow> RunConfig \<Rightarrow> error + RunConfig" where
  "remove_ok devicesPath typePrefix deviceName relativeTargetPath runConf = Inr runConf"

definition helpers_ok :: unix_helpers where
  "helpers_ok = \<lparr>unixDeviceSetupCharNum = setup_ok, unixDeviceRemove = remove_ok\<rparr>"

definition helpers_failing :: unix_helpers where
  "helpers_failing = \<lparr>unixDeviceSetupCharNum = setup_fails, unixDeviceRemove = remove_ok\<rparr>"






text \<open>A key of one of the reserved namespaces.\<close>

definition reserved :: "string \<Rightarrow> bool" where
  "reserved k \<longleftrightarrow> HasPrefix k ''volatile.'' \<or> HasPrefix k ''image.''"

text \<open>Arguments that modify, remove and add a reserved key.\<close>

definition config_modified :: config where
  "config_modified = [(''limits.cpu'', ''1''), (''volatile.eth0.hwaddr'', ''00:16:3e:00:00:99'')]"

definition config_removed :: config where
  "config_removed = [(''limits.cpu'', ''1'')]"

definition config_added :: config where
  "config_added = [(''limits.cpu'', ''1''), (''volatile.eth0.hwaddr'', ''00:16:3e:aa:bb:cc''),
                   (''image.os'', ''ubuntu'')]"

definition args_modified :: InstanceArgs where
  "args_modified = args_cpu\<lparr>arg_Config := Some config_modified\<rparr>"

text \<open>The events of the firmware settings store among the effects on the host so far.\<close>

definition nvram_events :: "world \<Rightarrow> host_event list" where
  "nvram_events w = filter is_nvram (host w)"











text \<open>
  A reserved key with the empty value: arguments that add it to the instance \<^verbatim>\<open>vm1\<close>, and
  an instance that holds it with arguments that leave it out.
\<close>

definition config_empty_key :: config where
  "config_empty_key = [(''limits.cpu'', ''1''), (''volatile.eth0.hwaddr'', ''00:16:3e:aa:bb:cc''),
                       (''image.os'', [])]"

definition args_added_empty :: InstanceArgs where
  "args_added_empty = args_cpu\<lparr>arg_Config := Some config_empty_key\<rparr>"

definition vm_empty_key :: vmQemu where
  "vm_empty_key = vm1\<lparr>expandedConfig := config_empty_key, localConfig := config_empty_key\<rparr>"

definition world_empty_key :: world where
  "world_empty_key = world1\<lparr>db := db1\<lparr>db_config := config_empty_key\<rparr>\<rparr>"

definition args_removed_empty :: InstanceArgs where
  "args_removed_empty = args_cpu\<lparr>arg_Config := Some config1\<rparr>"

section \<open>Properties\<close>

subsection \<open>Configuration maps\<close>

lemma map_of_delete_key: "map_of (delete_key k m) = (map_of m)(k := None)"
  by (induction m) (auto simp: fun_eq_iff)

lemma map_of_set_key: "map_of (set_key k v m) = (map_of m)(k \<mapsto> v)"
  by (induction m) (auto simp: fun_eq_iff)

lemma ToUpper_names:
  "ToUpper ''Stopped'' = ''STOPPED''" "ToUpper ''Running'' = ''RUNNING''" "ToUpper ''Error'' = ''ERROR''"
  by (simp_all add: ToUpper_def upper_char_def)

subsection \<open>Status derivation\<close>

lemma statusCode_no_socket: "\<not> socket_ok mon \<Longrightarrow> statusCode mon = (Stopped, [])"
  by (simp add: statusCode_def)

lemma statusCode_no_handshake:
  "socket_ok mon \<Longrightarrow> \<not> connect_ok mon \<Longrightarrow> statusCode mon = (Error, [NewSocketMonitor])"
  by (simp add: statusCode_def)

lemma statusCode_connected:
  "socket_ok mon \<Longrightarrow> connect_ok mon \<Longrightarrow>
   statusCode mon =
     ((case run_reply mon of
         None \<Rightarrow> Error
       | Some raw \<Rightarrow> (case decode_status mon raw of
                       None \<Rightarrow> Error
                     | Some status \<Rightarrow> if status = ''running'' then Running else Stopped)),
      [NewSocketMonitor, Connect, Run ''query-status'', Disconnect])"
  by (simp add: statusCode_def split: option.splits)

lemma State_cases:
  "State mon = (case fst (statusCode mon) of Stopped \<Rightarrow> ''STOPPED'' | Running \<Rightarrow> ''RUNNING'' | Error \<Rightarrow> ''ERROR'')"
  by (cases "fst (statusCode mon)") (simp_all add: State_def ToUpper_names)

lemma IsRunning_status: "IsRunning mon \<longleftrightarrow> fst (statusCode mon) \<noteq> Stopped"
  by (cases "fst (statusCode mon)") (simp_all add: IsRunning_def State_cases)

text \<open>
  C7, as stated, fails where the socket opens and the handshake fails: the status is
  Error, and the function returns before the deferred disconnect is registered, so the
  connection made by opening the socket is not disconnected.
\<close>

theorem statusCode_handshake_failure_not_disconnected:
  "fst (statusCode mon_handshake_fails) = Error
   \<and> NewSocketMonitor \<in> set (snd (statusCode mon_handshake_fails))
   \<and> Disconnect \<notin> set (snd (statusCode mon_handshake_fails))"
  by (simp add: statusCode_def mon_handshake_fails_def)

text \<open>
  C7, amended. For every status query: when the control-channel socket cannot be opened
  the status is Stopped and no call is made on the monitor; when the socket opens and
  the handshake fails the status is Error; when the handshake succeeds, a failing status
  command or a reply that does not decode yields Error, a decoded reply yields Running
  exactly when its status is "running" and Stopped otherwise, and on each of these paths
  the last call on the monitor is the disconnect. The disconnect is called exactly when
  the handshake succeeded.
\<close>

theorem statusCode_derivation:
  "(\<not> socket_ok mon \<longrightarrow> statusCode mon = (Stopped, []))
   \<and> (socket_ok mon \<and> \<not> connect_ok mon \<longrightarrow> fst (statusCode mon) = Error)
   \<and> (socket_ok mon \<and> connect_ok mon \<and> run_reply mon = None \<longrightarrow> fst (statusCode mon) = Error)
   \<and> (socket_ok mon \<and> connect_ok mon \<and> run_reply mon = Some raw \<and> decode_status mon raw = None
        \<longrightarrow> fst (statusCode mon) = Error)
   \<and> (socket_ok mon \<and> connect_ok mon \<and> run_reply mon = Some raw \<and> decode_status mon raw = Some status
        \<longrightarrow> (fst (statusCode mon) = Running \<longleftrightarrow> status = ''running'')
          \<and> (fst (statusCode mon) = Stopped \<longleftrightarrow> status \<noteq> ''running''))
   \<and> (socket_ok mon \<and> connect_ok mon
        \<longrightarrow> snd (statusCode mon) = [NewSocketMonitor, Connect, Run ''query-status'', Disconnect])
   \<and> (Disconnect \<in> set (snd (statusCode mon)) \<longleftrightarrow> socket_ok mon \<and> connect_ok mon)"
  by (auto simp: statusCode_def split: option.splits)

theorem statusCode_derivation_witness:
  "statusCode mon_no_socket = (Stopped, [])
   \<and> fst (statusCode mon_handshake_fails) = Error
   \<and> fst (statusCode mon_command_fails) = Error
   \<and> fst (statusCode mon_garbage) = Error
   \<and> fst (statusCode mon_running) = Running
   \<and> fst (statusCode mon_paused) = Stopped
   \<and> snd (statusCode mon_running) = [NewSocketMonitor, Connect, Run ''query-status'', Disconnect]
   \<and> Disconnect \<in> set (snd (statusCode mon_paused))"
  using statusCode_derivation [of mon_no_socket]
    statusCode_derivation [of mon_handshake_fails]
    statusCode_derivation [of mon_command_fails]
    statusCode_derivation [of mon_garbage "''garbage''"]
    statusCode_derivation [of mon_running "''running''" "''running''"]
    statusCode_derivation [of mon_paused "''paused''" "''paused''"]
  by (simp add: mon_no_socket_def mon_handshake_fails_def mon_command_fails_def mon_garbage_def
      mon_running_def mon_paused_def decode_plain_def)

subsection \<open>Frames of the steps\<close>

lemma volatile_frame_refl: "volatile_frame d d"
  by (simp add: volatile_frame_def)

lemma volatile_frame_trans: "volatile_frame a b \<Longrightarrow> volatile_frame b c \<Longrightarrow> volatile_frame a c"
  by (simp add: volatile_frame_def)

lemma quiet_refl: "quiet w w"
  by (simp add: quiet_def volatile_frame_refl)

lemma quiet_trans:
  assumes "quiet a b" and "quiet b c"
  shows "quiet a c"
proof -
  from assms obtain evs1 evs2 where
    e1: "host b = host a @ evs1" "list_all (\<lambda>ev. \<not> is_nvram ev) evs1" and
    e2: "host c = host b @ evs2" "list_all (\<lambda>ev. \<not> is_nvram ev) evs2"
    by (auto simp: quiet_def)
  then have "host c = host a @ (evs1 @ evs2) \<and> list_all (\<lambda>ev. \<not> is_nvram ev) (evs1 @ evs2)"
    by simp
  then have "\<exists>evs. host c = host a @ evs \<and> list_all (\<lambda>ev. \<not> is_nvram ev) evs"
    by blast
  with assms show ?thesis
    unfolding quiet_def using volatile_frame_trans by fastforce
qed

lemma quiet_emit: "\<not> is_nvram ev \<Longrightarrow> quiet w (emit ev w)"
  by (simp add: quiet_def emit_def volatile_frame_refl)

lemma quiet_session: "quiet w (w\<lparr>sessions := Suc (sessions w)\<rparr>)"
  by (simp add: quiet_def volatile_frame_refl)

lemma quiet_sessions: "sessions w \<le> n \<Longrightarrow> quiet w (w\<lparr>sessions := n\<rparr>)"
  by (simp add: quiet_def volatile_frame_refl)

lemma quiet_db_config:
  assumes "\<And>k. \<not> HasPrefix k ''volatile.'' \<Longrightarrow> map_of rows k = map_of (db_config (db w)) k"
  shows "quiet w (w\<lparr>db := (db w)\<lparr>db_config := rows\<rparr>\<rparr>)"
  using assms by (simp add: quiet_def volatile_frame_def)

lemma map_of_ContainerConfigUpdate_other:
  "k \<notin> fst ` set changes \<Longrightarrow> map_of (ContainerConfigUpdate changes rows) k = map_of rows k"
  by (induction changes arbitrary: rows) (auto simp: map_of_delete_key map_of_set_key)

lemma volatile_keys_only:
  assumes "\<not> list_ex (\<lambda>(key, v). \<not> HasPrefix key ''volatile.'') changes" and "\<not> HasPrefix k ''volatile.''"
  shows "k \<notin> fst ` set changes"
  using assms by (auto simp: list_ex_iff)

lemma IsRunning_now_quiet: "quiet w (snd (IsRunning_now e w))"
  by (simp add: IsRunning_now_def quiet_session)

lemma VolatileSet_quiet: "quiet (snd s) (snd (snd (VolatileSet e changes s)))"
proof (cases s)
  case (Pair vm w)
  show ?thesis
  proof (cases "list_ex (\<lambda>(key, v). \<not> HasPrefix key ''volatile.'') changes")
    case True
    with Pair show ?thesis by (simp add: VolatileSet_def quiet_refl)
  next
    case False
    then have other: "\<And>k. \<not> HasPrefix k ''volatile.'' \<Longrightarrow>
        map_of (ContainerConfigUpdate changes (db_config (db w))) k = map_of (db_config (db w)) k"
      using map_of_ContainerConfigUpdate_other volatile_keys_only by blast
    show ?thesis
      using Pair False quiet_db_config [of "ContainerConfigUpdate changes (db_config (db w))" w] other
      by (simp add: VolatileSet_def quiet_refl InstanceSnapshotConfigUpdate_def
          split: option.splits prod.splits)
  qed
qed


lemma quiet_emit_s: "\<not> is_nvram ev \<Longrightarrow> quiet (snd s) (snd (emit_s ev s))"
  by (simp add: emit_s_def quiet_emit)

lemma deviceVolatileSetFunc_quiet: "quiet (snd s) (snd (snd (deviceVolatileSetFunc e n save s)))"
  by (simp add: deviceVolatileSetFunc_def VolatileSet_quiet)

lemma apply_saves_quiet: "quiet (snd s) (snd (apply_saves e n saves s))"
proof (induction saves arbitrary: s)
  case Nil
  show ?case by (simp add: quiet_refl)
next
  case (Cons save saves)
  show ?case
    using quiet_trans [OF deviceVolatileSetFunc_quiet Cons.IH] by simp
qed

lemma hwaddr_key_volatile: "HasPrefix (''volatile.'' @ n @ ''.hwaddr'') ''volatile.''"
  by (simp add: HasPrefix_def)

lemma fillNetworkDevice_quiet: "quiet (snd s) (snd (snd (fillNetworkDevice e n m s)))"
proof (cases s)
  case (Pair vm w)
  have upd: "\<And>v. quiet w (w\<lparr>db := (db w)\<lparr>db_config := set_key (''volatile.'' @ n @ ''.hwaddr'') v (db_config (db w))\<rparr>\<rparr>)"
    using hwaddr_key_volatile by (intro quiet_db_config) (auto simp: map_of_set_key)
  show ?thesis
    using Pair upd
    by (auto simp: fillNetworkDevice_def Let_def quiet_refl split: sum.splits option.splits)
qed

lemma deviceLoad_quiet: "quiet (snd s) (snd (snd (deviceLoad e n c s)))"
  using fillNetworkDevice_quiet [of s e n c]
  by (auto simp: deviceLoad_def quiet_refl split: prod.splits sum.splits)

lemma runHooks_quiet: "quiet (snd s) (snd (snd (runHooks e hooks s)))"
proof (induction hooks arbitrary: s)
  case Nil
  show ?case by (simp add: quiet_refl)
next
  case (Cons h hooks)
  have step: "quiet (snd s) (snd (emit_s (HookRun h) s))"
    by (simp add: quiet_emit_s)
  show ?case
    using step quiet_trans [OF step Cons.IH] by (simp split: option.splits)
qed


lemma deviceStart_quiet: "quiet (snd s) (snd (snd (deviceStart e n c r s)))"
proof -
  obtain res cc s' where L: "deviceLoad e n c s = ((res, cc), s')"
    by (metis prod.exhaust)
  have q1: "quiet (snd s) (snd s')"
    using deviceLoad_quiet [of s e n c] L by simp
  have q2: "\<And>saves. quiet (snd s') (snd (emit_s (DeviceStart n) (apply_saves e n saves s')))"
    using quiet_trans [OF apply_saves_quiet quiet_emit_s] by simp
  show ?thesis
    using L q1 quiet_trans [OF q1 q2]
    by (cases res) (simp_all add: deviceStart_def Let_def)
qed

lemma deviceUpdate_quiet: "quiet (snd s) (snd (snd (deviceUpdate e n c old r s)))"
proof -
  obtain res cc s' where L: "deviceLoad e n c s = ((res, cc), s')"
    by (metis prod.exhaust)
  have q1: "quiet (snd s) (snd s')"
    using deviceLoad_quiet [of s e n c] L by simp
  have q2: "\<And>saves. quiet (snd s') (snd (emit_s (DeviceUpdate n) (apply_saves e n saves s')))"
    using quiet_trans [OF apply_saves_quiet quiet_emit_s] by simp
  show ?thesis
    using L q1 quiet_trans [OF q1 q2]
    by (cases res) (simp_all add: deviceUpdate_def Let_def)
qed

lemma deviceStop_quiet: "quiet (snd s) (snd (snd (deviceStop e n c s)))"
proof -
  obtain res cc s' where L: "deviceLoad e n c s = ((res, cc), s')"
    by (metis prod.exhaust)
  have q1: "quiet (snd s) (snd s')"
    using deviceLoad_quiet [of s e n c] L by simp
  define s1 where "s1 = (fst s', snd (IsRunning_now e (snd s')))"
  have q2: "quiet (snd s) (snd s1)"
    using quiet_trans [OF q1 IsRunning_now_quiet] by (simp add: s1_def)
  define s2 where "s2 = emit_s (DeviceStop n) (apply_saves e n (volatile_saves (driver_Stop e n cc)) s1)"
  have q3: "quiet (snd s) (snd s2)"
    unfolding s2_def using quiet_trans [OF q2 quiet_trans [OF apply_saves_quiet quiet_emit_s]] by simp
  have q4: "\<And>hooks. quiet (snd s) (snd (snd (runHooks e hooks s2)))"
    using quiet_trans [OF q3 runHooks_quiet] .
  show ?thesis
    using L q1 q2 q3 q4
    by (cases res)
       (auto simp: deviceStop_def Let_def s1_def s2_def split: prod.splits sum.splits option.splits)
qed

lemma deviceResetVolatile_quiet: "quiet (snd s) (snd (snd (deviceResetVolatile e n old new s)))"
  by (simp add: deviceResetVolatile_def VolatileSet_quiet)

lemma cleanup_loop_quiet: "quiet (snd s) (snd (cleanup_loop e devs s))"
proof (induction devs arbitrary: s)
  case Nil
  show ?case by (simp add: quiet_refl)
next
  case (Cons d devs)
  obtain n c where d: "d = (n, c)" by (cases d)
  show ?case
    using quiet_trans [OF deviceStop_quiet Cons.IH] d by simp
qed

lemma cleanupDevices_quiet: "quiet (snd s) (snd (cleanupDevices e s))"
  by (simp add: cleanupDevices_def cleanup_loop_quiet)

lemma unmount_quiet: "quiet (snd s) (snd (snd (unmount e s)))"
  by (cases s) (auto simp: unmount_def quiet_refl quiet_emit split: prod.splits sum.splits)

lemma mount_quiet: "quiet (snd s) (snd (snd (mount e s)))"
  by (cases s) (auto simp: mount_def quiet_refl quiet_emit split: prod.splits sum.splits)

lemma stop_cleanup_quiet: "quiet (snd s) (snd (stop_cleanup e s))"
proof -
  have "quiet (snd s) (snd (emit_s (FileRemoved (getMonitorPath e))
          (emit_s (FileRemoved (pidFilePath e)) (cleanupDevices e s))))"
    using quiet_trans [OF cleanupDevices_quiet quiet_trans [OF quiet_emit_s quiet_emit_s]] by simp
  then show ?thesis
    unfolding stop_cleanup_def Let_def using quiet_trans [OF _ unmount_quiet] by blast
qed


lemma remove_loop_quiet: "quiet (snd s) (snd (snd (remove_loop e r adds devs s)))"
proof (induction devs arbitrary: s)
  case Nil
  show ?case by (simp add: quiet_refl)
next
  case (Cons d devs)
  obtain n c where d: "d = (n, c)" by (cases d)
  define s1 where "s1 = (if r then snd (deviceStop e n c s) else s)"
  have q1: "quiet (snd s) (snd s1)"
    by (simp add: s1_def deviceStop_quiet quiet_refl)
  define s2 where "s2 = snd (deviceResetVolatile e n c (get_device adds n) s1)"
  have q2: "quiet (snd s) (snd s2)"
    unfolding s2_def using quiet_trans [OF q1 deviceResetVolatile_quiet] .
  have q3: "quiet (snd s) (snd (snd (remove_loop e r adds devs s1)))"
    using quiet_trans [OF q1 Cons.IH] .
  have q4: "quiet (snd s) (snd (snd (remove_loop e r adds devs s2)))"
    using quiet_trans [OF q2 Cons.IH] .
  show ?case
    using d q1 q2 q3 q4
    by (auto simp: s1_def s2_def deviceRemove_def quiet_refl split: prod.splits option.splits if_splits)
qed

lemma add_loop_quiet: "quiet (snd s) (snd (snd (add_loop e r devs s)))"
proof (induction devs arbitrary: s)
  case Nil
  show ?case by (simp add: quiet_refl)
next
  case (Cons d devs)
  obtain n c where d: "d = (n, c)" by (cases d)
  define s1 where "s1 = snd (deviceStart e n c r s)"
  have q1: "quiet (snd s) (snd s1)"
    by (simp add: s1_def deviceStart_quiet)
  have q2: "quiet (snd s) (snd (snd (add_loop e r devs s1)))"
    using quiet_trans [OF q1 Cons.IH] .
  show ?case
    using d q1 q2 Cons.IH [of s]
    by (auto simp: s1_def deviceAdd_def split: prod.splits sum.splits if_splits)
qed

lemma update_loop_quiet: "quiet (snd s) (snd (snd (update_loop e r old devs s)))"
proof (induction devs arbitrary: s)
  case Nil
  show ?case by (simp add: quiet_refl)
next
  case (Cons d devs)
  obtain n c where d: "d = (n, c)" by (cases d)
  define s1 where "s1 = snd (deviceUpdate e n c old r s)"
  have q1: "quiet (snd s) (snd s1)"
    by (simp add: s1_def deviceUpdate_quiet)
  have q2: "quiet (snd s) (snd (snd (update_loop e r old devs s1)))"
    using quiet_trans [OF q1 Cons.IH] .
  show ?case
    using d q1 q2
    by (auto simp: s1_def split: prod.splits option.splits if_splits)
qed

lemma updateDevices_quiet: "quiet (snd s) (snd (snd (updateDevices e rm adds upd old s)))"
proof -
  define r where "r = fst (IsRunning_now e (snd s))"
  define s1 where "s1 = (fst s, snd (IsRunning_now e (snd s)))"
  have q1: "quiet (snd s) (snd s1)"
    by (simp add: s1_def IsRunning_now_quiet)
  define s2 where "s2 = snd (remove_loop e r adds (Reversed e rm) s1)"
  have q2: "quiet (snd s) (snd s2)"
    unfolding s2_def using quiet_trans [OF q1 remove_loop_quiet] .
  define s3 where "s3 = snd (add_loop e r (Sorted e adds) s2)"
  have q3: "quiet (snd s) (snd s3)"
    unfolding s3_def using quiet_trans [OF q2 add_loop_quiet] .
  have q4: "quiet (snd s) (snd (snd (update_loop e r old (Sorted e upd) s3)))"
    using quiet_trans [OF q3 update_loop_quiet] .
  show ?thesis
    using q2 q3 q4
    by (auto simp: updateDevices_def Let_def r_def s1_def s2_def s3_def
        split: prod.splits option.splits)
qed

lemma maasInterfaces_quiet: "quiet (snd s) (snd (snd (maasInterfaces e devs ifs s)))"
proof (induction devs arbitrary: s ifs)
  case Nil
  show ?case by (simp add: quiet_refl)
next
  case (Cons d devs)
  obtain k m where d: "d = (k, m)" by (cases d)
  define s1 where "s1 = snd (fillNetworkDevice e k m s)"
  have q1: "quiet (snd s) (snd s1)"
    by (simp add: s1_def fillNetworkDevice_quiet)
  have q2: "\<And>ifs'. quiet (snd s) (snd (snd (maasInterfaces e devs ifs' s1)))"
    using quiet_trans [OF q1 Cons.IH] .
  show ?case
    using d q1 q2 Cons.IH [of s]
    by (auto simp: s1_def Let_def split: prod.splits sum.splits)
qed

lemma maas_request_quiet: "quiet (snd s) (snd (snd (maas_request e call s)))"
  by (auto simp: maas_request_def quiet_refl quiet_emit_s split: option.splits)

lemma maasUpdate_quiet: "quiet (snd s) (snd (snd (maasUpdate e old s)))"
proof -
  define s1 where "s1 = snd (maasInterfaces e (expandedDevices (fst s)) [] s)"
  have q1: "quiet (snd s) (snd s1)"
    by (simp add: s1_def maasInterfaces_quiet)
  define s2 where "s2 = (case old of None \<Rightarrow> s1 | Some devs \<Rightarrow> snd (maasInterfaces e devs [] s1))"
  have q2: "quiet (snd s) (snd s2)"
    using q1 quiet_trans [OF q1 maasInterfaces_quiet]
    by (simp add: s2_def split: option.splits)
  have q3: "\<And>call. quiet (snd s) (snd (snd (maas_request e call s2)))"
    using quiet_trans [OF q2 maas_request_quiet] .
  show ?thesis
    using q1 q2 q3
    by (auto simp: maasUpdate_def s1_def s2_def quiet_refl split: prod.splits sum.splits option.splits)
qed

subsection \<open>The running state\<close>

lemma quiet_sessions_le: "quiet w w' \<Longrightarrow> sessions w \<le> sessions w'"
  by (simp add: quiet_def)

lemma monitor_command_sessions: "sessions (snd (monitor_command e cmd w)) = Suc (sessions w)"
  by (simp add: monitor_command_def Let_def emit_def split: option.splits)

lemma poll_stopped_le: "poll_stopped e n rounds = Some m \<Longrightarrow> n < m"
  by (induction e n rounds rule: poll_stopped.induct) (auto split: if_splits)

lemma Stop_past_check:
  assumes run: "IsRunning (monitor_at e (sessions w))"
    and res: "Stop e False rounds (vm, w) = Some (r, s')"
  shows "sessions w + 2 \<le> sessions (snd s')"
proof -
  define w1 where "w1 = w\<lparr>sessions := Suc (sessions w)\<rparr>"
  obtain c w2 where mc: "monitor_command e ''quit'' w1 = (c, w2)"
    by (cases "monitor_command e ''quit'' w1")
  have s2: "sessions w2 = sessions w + 2"
    using monitor_command_sessions [of e "''quit''" w1] mc by (simp add: w1_def)
  have cl: "sessions w2 \<le> sessions (snd (stop_cleanup e (vm, w2)))"
    using quiet_sessions_le [OF stop_cleanup_quiet [of "(vm, w2)" e]] by simp
  show ?thesis
    using run res mc s2 cl
    by (auto simp: Stop_def IsRunning_now_def w1_def Let_def split: option.splits prod.splits if_splits)
qed

lemma Shutdown_past_check:
  assumes run: "IsRunning (monitor_at e (sessions w))"
    and res: "Shutdown e timeout rounds (vm, w) = Some (r, s')"
  shows "sessions w + 2 \<le> sessions (snd s')"
proof -
  define w1 where "w1 = w\<lparr>sessions := Suc (sessions w)\<rparr>"
  obtain c w2 where mc: "monitor_command e ''system_powerdown'' w1 = (c, w2)"
    by (cases "monitor_command e ''system_powerdown'' w1")
  have s2: "sessions w2 = sessions w + 2"
    using monitor_command_sessions [of e "''system_powerdown''" w1] mc by (simp add: w1_def)
  have cl: "sessions w2 \<le> sessions (snd (stop_cleanup e (vm, w2\<lparr>sessions := n\<rparr>)))"
    if "sessions w2 \<le> n" for n
    using quiet_sessions_le [OF stop_cleanup_quiet [of "(vm, w2\<lparr>sessions := n\<rparr>)" e]] that by simp
  have pl: "\<And>k n. poll_stopped e (sessions w2) k = Some n \<Longrightarrow> sessions w2 \<le> n"
    using poll_stopped_le by fastforce
  show ?thesis
    using run res mc s2 cl pl
    by (auto simp: Shutdown_def IsRunning_now_def w1_def Let_def
        split: option.splits prod.splits if_splits)
qed

lemma Update_running:
  "IsRunning (monitor_at e (sessions w)) \<Longrightarrow>
   Update e args ur (vm, w) =
     (Some (Errorf ''Update whilst running not supported''), (vm, w\<lparr>sessions := Suc (sessions w)\<rparr>))"
  by (simp add: Update_def IsRunning_now_def)

lemma Start_running:
  "IsRunning (monitor_at e (sessions w)) \<Longrightarrow>
   Start e st (vm, w) =
     (case LoadModule e ''vhost_vsock'' w of
        (Some err, w1) \<Rightarrow> (Some err, (vm, w1))
      | (None, w1) \<Rightarrow> (Some (Errorf ''The instance is already running''),
                        (vm, w1\<lparr>sessions := Suc (sessions w)\<rparr>)))"
  by (auto simp: Start_def IsRunning_now_def LoadModule_def emit_def split: option.splits prod.splits)

text \<open>
  C10. \<^verbatim>\<open>IsRunning\<close> is true exactly when the derived state is neither "STOPPED" nor
  "BROKEN", that is when the derived status is not Stopped. When the socket connects and
  the handshake, the status command or the decoding fails, the status is Error and
  \<^verbatim>\<open>IsRunning\<close> is true; on such an instance \<^verbatim>\<open>Update\<close> is refused as on a running
  one, \<^verbatim>\<open>Start\<close> is refused as already running, and \<^verbatim>\<open>Stop\<close> and \<^verbatim>\<open>Shutdown\<close> pass
  their running-state check and open the session that sends their command.
\<close>

theorem IsRunning_unless_stopped:
  "(IsRunning mon \<longleftrightarrow> State mon \<noteq> ''STOPPED'' \<and> State mon \<noteq> ''BROKEN'')
   \<and> (IsRunning mon \<longleftrightarrow> fst (statusCode mon) \<noteq> Stopped)
   \<and> (socket_ok mon \<and> (\<not> connect_ok mon \<or> run_reply mon = None
         \<or> (\<exists>raw. run_reply mon = Some raw \<and> decode_status mon raw = None))
        \<longrightarrow> fst (statusCode mon) = Error \<and> IsRunning mon)
   \<and> (fst (statusCode (monitor_at e (sessions w))) = Error \<longrightarrow>
         Update e args ur (vm, w) =
           (Some (Errorf ''Update whilst running not supported''), (vm, w\<lparr>sessions := Suc (sessions w)\<rparr>))
       \<and> (''vhost_vsock'' \<in> set (modules w) \<longrightarrow>
            Start e st (vm, w) =
              (Some (Errorf ''The instance is already running''), (vm, w\<lparr>sessions := Suc (sessions w)\<rparr>)))
       \<and> (\<forall>r s'. Stop e False rounds (vm, w) = Some (r, s') \<longrightarrow> sessions w + 2 \<le> sessions (snd s'))
       \<and> (\<forall>r s'. Shutdown e timeout rounds (vm, w) = Some (r, s') \<longrightarrow> sessions w + 2 \<le> sessions (snd s')))"
proof -
  have a: "IsRunning mon \<longleftrightarrow> State mon \<noteq> ''STOPPED'' \<and> State mon \<noteq> ''BROKEN''"
    by (auto simp: IsRunning_def)
  have b: "IsRunning mon \<longleftrightarrow> fst (statusCode mon) \<noteq> Stopped"
    by (rule IsRunning_status)
  have c: "socket_ok mon \<and> (\<not> connect_ok mon \<or> run_reply mon = None
         \<or> (\<exists>raw. run_reply mon = Some raw \<and> decode_status mon raw = None))
        \<longrightarrow> fst (statusCode mon) = Error \<and> IsRunning mon"
    by (auto simp: IsRunning_status statusCode_def)
  have d: "fst (statusCode (monitor_at e (sessions w))) = Error \<longrightarrow>
         Update e args ur (vm, w) =
           (Some (Errorf ''Update whilst running not supported''), (vm, w\<lparr>sessions := Suc (sessions w)\<rparr>))
       \<and> (''vhost_vsock'' \<in> set (modules w) \<longrightarrow>
            Start e st (vm, w) =
              (Some (Errorf ''The instance is already running''), (vm, w\<lparr>sessions := Suc (sessions w)\<rparr>)))
       \<and> (\<forall>r s'. Stop e False rounds (vm, w) = Some (r, s') \<longrightarrow> sessions w + 2 \<le> sessions (snd s'))
       \<and> (\<forall>r s'. Shutdown e timeout rounds (vm, w) = Some (r, s') \<longrightarrow> sessions w + 2 \<le> sessions (snd s'))"
  proof
    assume err: "fst (statusCode (monitor_at e (sessions w))) = Error"
    then have run: "IsRunning (monitor_at e (sessions w))"
      by (simp add: IsRunning_status)
    show "Update e args ur (vm, w) =
           (Some (Errorf ''Update whilst running not supported''), (vm, w\<lparr>sessions := Suc (sessions w)\<rparr>))
       \<and> (''vhost_vsock'' \<in> set (modules w) \<longrightarrow>
            Start e st (vm, w) =
              (Some (Errorf ''The instance is already running''), (vm, w\<lparr>sessions := Suc (sessions w)\<rparr>)))
       \<and> (\<forall>r s'. Stop e False rounds (vm, w) = Some (r, s') \<longrightarrow> sessions w + 2 \<le> sessions (snd s'))
       \<and> (\<forall>r s'. Shutdown e timeout rounds (vm, w) = Some (r, s') \<longrightarrow> sessions w + 2 \<le> sessions (snd s'))"
      using Update_running [OF run] Start_running [OF run] Stop_past_check [OF run]
        Shutdown_past_check [OF run]
      by (simp add: LoadModule_def)
  qed
  from a b c d show ?thesis by blast
qed

theorem IsRunning_unless_stopped_witness:
  "IsRunning mon_handshake_fails
   \<and> fst (statusCode mon_handshake_fails) = Error
   \<and> fst (statusCode (monitor_at env_handshake_fails (sessions world_loaded))) = Error
   \<and> Update env_handshake_fails args_cpu True (vm1, world_loaded) =
        (Some (Errorf ''Update whilst running not supported''), (vm1, world_loaded\<lparr>sessions := 1\<rparr>))
   \<and> Start env_handshake_fails False (vm1, world_loaded) =
        (Some (Errorf ''The instance is already running''), (vm1, world_loaded\<lparr>sessions := 1\<rparr>))
   \<and> Stop env_handshake_fails False 5 (vm1, world_loaded) =
        Some (Some (Errorf ''monitor handshake failed''), (vm1, world_loaded\<lparr>sessions := 2\<rparr>))
   \<and> Shutdown env_handshake_fails 0 5 (vm1, world_loaded) =
        Some (Some (Errorf ''monitor handshake failed''), (vm1, world_loaded\<lparr>sessions := 2\<rparr>))"
proof -
  have err: "fst (statusCode (monitor_at env_handshake_fails (sessions world_loaded))) = Error"
    by (simp add: env_handshake_fails_def always_handshake_fails_def mon_handshake_fails_def
        statusCode_def)
  have loaded: "''vhost_vsock'' \<in> set (modules world_loaded)"
    by (simp add: world_loaded_def)
  have hs: "socket_ok mon_handshake_fails \<and> \<not> connect_ok mon_handshake_fails"
    by (simp add: mon_handshake_fails_def)
  have sess: "sessions world_loaded = 0"
    by (simp add: world_loaded_def world1_def)
  have stop: "Stop env_handshake_fails False 5 (vm1, world_loaded) =
        Some (Some (Errorf ''monitor handshake failed''), (vm1, world_loaded\<lparr>sessions := 2\<rparr>))"
    by (simp add: Stop_def IsRunning_now_def monitor_command_def Let_def sess IsRunning_status
        env_handshake_fails_def always_handshake_fails_def mon_handshake_fails_def statusCode_def)
  have shut: "Shutdown env_handshake_fails 0 5 (vm1, world_loaded) =
        Some (Some (Errorf ''monitor handshake failed''), (vm1, world_loaded\<lparr>sessions := 2\<rparr>))"
    by (simp add: Shutdown_def IsRunning_now_def monitor_command_def Let_def sess IsRunning_status
        env_handshake_fails_def always_handshake_fails_def mon_handshake_fails_def statusCode_def)
  show ?thesis
    using IsRunning_unless_stopped [of mon_handshake_fails env_handshake_fails world_loaded
        args_cpu True vm1 False 5 0] err loaded stop shut hs
    by (auto simp: sess)
qed


subsection \<open>Running-state checks of Stop and Start\<close>

lemma Stop_not_running:
  "\<not> IsRunning (monitor_at e (sessions w)) \<Longrightarrow>
   Stop e False rounds (vm, w) =
     Some (Some (Errorf ''Instance is not running''), (vm, w\<lparr>sessions := Suc (sessions w)\<rparr>))"
  by (simp add: Stop_def IsRunning_now_def)

text \<open>
  C3, as stated, fails for \<^verbatim>\<open>Start\<close>: the kernel module is loaded before the running
  state is checked, so a call that is rejected because the instance runs has loaded the
  module when it was not loaded.
\<close>

theorem Start_rejected_after_module_load:
  "IsRunning (monitor_at env_running (sessions world1))
   \<and> modules world1 = [] \<and> host world1 = []
   \<and> Start env_running False (vm1, world1) =
        (Some (Errorf ''The instance is already running''),
         (vm1, world1\<lparr>modules := [''vhost_vsock''], host := [Modprobe ''vhost_vsock''], sessions := 1\<rparr>))"
  by (simp add: Start_def LoadModule_def IsRunning_now_def IsRunning_status statusCode_def emit_def
      env_running_def calm_def always_running_def mon_running_def decode_plain_def world1_def)

text \<open>
  C3, amended. \<^verbatim>\<open>Stop\<close> called on an instance that is not running fails with an error
  and leaves the struct, the database, the kernel modules and the host as they were
  (the status query is all it does). \<^verbatim>\<open>Start\<close> called on an instance that is running
  fails with an error and leaves the struct and the database as they were; the one
  thing it does before the running-state check is to ensure that the vhost_vsock kernel
  module is loaded: when the module is loaded already nothing on the host changes,
  otherwise the module is loaded (or the call fails with the error of loading it)
  before the call is rejected.
\<close>

theorem rejected_calls_frame:
  "(\<not> IsRunning (monitor_at e (sessions w)) \<longrightarrow>
      Stop e False rounds (vm, w) =
        Some (Some (Errorf ''Instance is not running''), (vm, w\<lparr>sessions := Suc (sessions w)\<rparr>))
      \<and> Stop e True rounds (vm, w) =
        Some (Some (Errorf ''Stateful stop isn't supported for VMs at this time''), (vm, w)))
   \<and> (IsRunning (monitor_at e (sessions w)) \<and> ''vhost_vsock'' \<in> set (modules w) \<longrightarrow>
      Start e st (vm, w) =
        (Some (Errorf ''The instance is already running''), (vm, w\<lparr>sessions := Suc (sessions w)\<rparr>)))
   \<and> (IsRunning (monitor_at e (sessions w)) \<and> ''vhost_vsock'' \<notin> set (modules w)
        \<and> modprobe e ''vhost_vsock'' = None \<longrightarrow>
      Start e st (vm, w) =
        (Some (Errorf ''The instance is already running''),
         (vm, w\<lparr>modules := ''vhost_vsock'' # modules w, host := host w @ [Modprobe ''vhost_vsock''],
               sessions := Suc (sessions w)\<rparr>)))
   \<and> (IsRunning (monitor_at e (sessions w)) \<and> ''vhost_vsock'' \<notin> set (modules w)
        \<and> modprobe e ''vhost_vsock'' = Some err \<longrightarrow>
      Start e st (vm, w) = (Some err, (vm, w)))"
proof -
  have stop: "\<not> IsRunning (monitor_at e (sessions w)) \<longrightarrow>
      Stop e False rounds (vm, w) =
        Some (Some (Errorf ''Instance is not running''), (vm, w\<lparr>sessions := Suc (sessions w)\<rparr>))
      \<and> Stop e True rounds (vm, w) =
        Some (Some (Errorf ''Stateful stop isn't supported for VMs at this time''), (vm, w))"
    using Stop_not_running by (simp add: Stop_def)
  have start: "IsRunning (monitor_at e (sessions w)) \<Longrightarrow>
      Start e st (vm, w) =
       (case LoadModule e ''vhost_vsock'' w of
          (Some err, w1) \<Rightarrow> (Some err, (vm, w1))
        | (None, w1) \<Rightarrow> (Some (Errorf ''The instance is already running''),
                          (vm, w1\<lparr>sessions := Suc (sessions w)\<rparr>)))"
    by (rule Start_running)
  show ?thesis
    using stop start by (auto simp: LoadModule_def emit_def)
qed

theorem rejected_calls_frame_witness:
  "\<not> IsRunning (monitor_at calm (sessions world1))
   \<and> Stop calm False 5 (vm1, world1) =
        Some (Some (Errorf ''Instance is not running''), (vm1, world1\<lparr>sessions := 1\<rparr>))
   \<and> Stop calm True 5 (vm1, world1) =
        Some (Some (Errorf ''Stateful stop isn't supported for VMs at this time''), (vm1, world1))
   \<and> IsRunning (monitor_at env_running (sessions world_loaded))
   \<and> Start env_running False (vm1, world_loaded) =
        (Some (Errorf ''The instance is already running''), (vm1, world_loaded\<lparr>sessions := 1\<rparr>))
   \<and> Start env_running False (vm1, world1) =
        (Some (Errorf ''The instance is already running''),
         (vm1, world1\<lparr>modules := [''vhost_vsock''], host := [Modprobe ''vhost_vsock''], sessions := 1\<rparr>))"
proof -
  have stopped: "\<not> IsRunning (monitor_at calm (sessions world1))"
    by (simp add: IsRunning_status statusCode_def calm_def always_stopped_def mon_no_socket_def)
  have running: "IsRunning (monitor_at env_running n)" for n
    by (simp add: IsRunning_status statusCode_def env_running_def calm_def always_running_def
        mon_running_def decode_plain_def)
  have loaded: "''vhost_vsock'' \<in> set (modules world_loaded)" "sessions world_loaded = 0"
    by (simp_all add: world_loaded_def world1_def)
  have fresh: "''vhost_vsock'' \<notin> set (modules world1)" "modprobe env_running ''vhost_vsock'' = None"
    "sessions world1 = 0" "modules world1 = []" "host world1 = []"
    by (simp_all add: world1_def env_running_def calm_def)
  show ?thesis
    using rejected_calls_frame [of calm world1 5 vm1 False "Errorf []"]
      rejected_calls_frame [of env_running world_loaded 5 vm1 False "Errorf []"]
      rejected_calls_frame [of env_running world1 5 vm1 False "Errorf []"]
      stopped running loaded fresh
    by simp
qed

subsection \<open>Shutdown\<close>

text \<open>
  C2 at the failing input. The instance runs, the power-down command is accepted, and the
  first poll sees the instance stopped. With a positive timeout \<^verbatim>\<open>Shutdown\<close> returns
  without an error as soon as the shutdown is seen, and nothing is cleaned up: no device
  is stopped, the PID file and the control-socket file stay, the mount is kept. Without
  a timeout the same shutdown is followed by the cleanup.
\<close>

theorem Shutdown_with_timeout_skips_cleanup:
  "Shutdown env_shutdown 30000000000 5 (vm1, world1) =
     Some (None, (vm1, world1\<lparr>host := [QmpCommand ''system_powerdown''], sessions := 3\<rparr>))
   \<and> Shutdown env_shutdown 0 5 (vm1, world1) =
     Some (None, (vm1\<lparr>storagePool := Some ''default''\<rparr>,
        world1\<lparr>host := [QmpCommand ''system_powerdown'', DeviceStop ''root'', DeviceStop ''eth0'',
                         FileRemoved ''/var/log/lxd/vm1/qemu.pid'',
                         FileRemoved ''/var/log/lxd/vm1/qemu.monitor'', UnmountInstance],
               sessions := 5\<rparr>))"
  by code_simp

subsection \<open>The machine description\<close>

text \<open>
  C6 at the failing input. The root drive and two disk devices with one mount each: the
  root drive has scsi-id 0 and both supplementary drives have scsi-id 1, since the drive
  index starts again for every run configuration.
\<close>

theorem generateQemuConfigFile_repeats_scsi_id:
  "drive_ids calm [rc_root, rc_data, rc_backup] (vm1, world1) = [0, 1, 1]
   \<and> \<not> distinct (drive_ids calm [rc_root, rc_data, rc_backup] (vm1, world1))"
  by code_simp

subsection \<open>Unix hotplug handlers\<close>

text \<open>
  C9, as stated, fails where the event matches, its action is "add" and the device node
  cannot be set up: the handler returns the error and no run configuration.
\<close>

theorem handler_add_can_fail:
  "unixHotplugIsOurDevice usb_config usb_add \<and> Action usb_add = ''add''
   \<and> unixHotplug_handler helpers_failing ''/var/lib/lxd/devices/c1'' usb_config ''usb0'' usb_add =
        Inl (Errorf ''mknod: operation not permitted'')"
  by (simp add: unixHotplug_handler_def unixHotplugIsOurDevice_def get_def usb_config_def usb_add_def
      helpers_failing_def setup_fails_def)

text \<open>
  C9, amended. The handler that \<^verbatim>\<open>Register\<close> stores under the device's key matches an
  event if and only if each of the device's "vendorid" and "productid" filters is empty
  or equal to the event's vendor and product id. For an event that does not match, the
  handler returns a nil run configuration and a nil error. For a matching event with
  action "add" it sets up the device node: when that succeeds it returns a non-nil run
  configuration (the one the set-up built, with the event's uevent parts appended), and
  when that fails it returns the error and no run configuration.
\<close>

theorem registered_handler_matches:
  "map_of (Register h projectName instanceName devicesPath deviceName cfg hs)
       (handler_key projectName instanceName deviceName) =
     Some (unixHotplug_handler h devicesPath cfg deviceName)
   \<and> (unixHotplugIsOurDevice cfg ev \<longleftrightarrow>
        (get cfg ''vendorid'' = [] \<or> get cfg ''vendorid'' = Vendor ev)
        \<and> (get cfg ''productid'' = [] \<or> get cfg ''productid'' = Product ev))
   \<and> (\<not> unixHotplugIsOurDevice cfg ev \<longrightarrow> unixHotplug_handler h devicesPath cfg deviceName ev = Inr None)
   \<and> (unixHotplugIsOurDevice cfg ev \<and> Action ev = ''add''
        \<and> unixDeviceSetupCharNum h devicesPath ''unix'' deviceName cfg (Major ev) (Minor ev) (Path ev)
             False empty_RunConfig = Inr runConf
       \<longrightarrow> unixHotplug_handler h devicesPath cfg deviceName ev =
             Inr (Some (runConf\<lparr>Uevents := Uevents runConf @ [UeventParts ev]\<rparr>)))
   \<and> (unixHotplugIsOurDevice cfg ev \<and> Action ev = ''add''
        \<and> unixDeviceSetupCharNum h devicesPath ''unix'' deviceName cfg (Major ev) (Minor ev) (Path ev)
             False empty_RunConfig = Inl err
       \<longrightarrow> unixHotplug_handler h devicesPath cfg deviceName ev = Inl err)"
proof -
  have reg: "map_of (Register h projectName instanceName devicesPath deviceName cfg hs)
       (handler_key projectName instanceName deviceName) =
     Some (unixHotplug_handler h devicesPath cfg deviceName)"
    by (simp add: Register_def unixHotplugRegisterHandler_def map_of_set_key)
  have ours: "unixHotplugIsOurDevice cfg ev \<longleftrightarrow>
        (get cfg ''vendorid'' = [] \<or> get cfg ''vendorid'' = Vendor ev)
        \<and> (get cfg ''productid'' = [] \<or> get cfg ''productid'' = Product ev)"
    by (auto simp: unixHotplugIsOurDevice_def)
  have rest: "(\<not> unixHotplugIsOurDevice cfg ev \<longrightarrow> unixHotplug_handler h devicesPath cfg deviceName ev = Inr None)
   \<and> (unixHotplugIsOurDevice cfg ev \<and> Action ev = ''add''
        \<and> unixDeviceSetupCharNum h devicesPath ''unix'' deviceName cfg (Major ev) (Minor ev) (Path ev)
             False empty_RunConfig = Inr runConf
       \<longrightarrow> unixHotplug_handler h devicesPath cfg deviceName ev =
             Inr (Some (runConf\<lparr>Uevents := Uevents runConf @ [UeventParts ev]\<rparr>)))
   \<and> (unixHotplugIsOurDevice cfg ev \<and> Action ev = ''add''
        \<and> unixDeviceSetupCharNum h devicesPath ''unix'' deviceName cfg (Major ev) (Minor ev) (Path ev)
             False empty_RunConfig = Inl err
       \<longrightarrow> unixHotplug_handler h devicesPath cfg deviceName ev = Inl err)"
    by (simp add: unixHotplug_handler_def)
  from reg ours rest show ?thesis by blast
qed

theorem registered_handler_matches_witness:
  "unixHotplugIsOurDevice usb_config usb_add
   \<and> get usb_config ''vendorid'' = [] \<and> get usb_config ''productid'' = Product usb_add
   \<and> \<not> unixHotplugIsOurDevice usb_config usb_other
   \<and> unixHotplug_handler helpers_ok ''/var/lib/lxd/devices/c1'' usb_config ''usb0'' usb_other = Inr None
   \<and> unixHotplug_handler helpers_ok ''/var/lib/lxd/devices/c1'' usb_config ''usb0'' usb_add =
        Inr (Some (empty_RunConfig\<lparr>
          Mounts := [\<lparr>DevPath = ''/var/lib/lxd/devices/c1/unix.usb0'', TargetPath = ''/dev/bus/usb/001/004''\<rparr>],
          Uevents := [[''add@/devices/usb1/1-2'']]\<rparr>))
   \<and> unixHotplug_handler helpers_failing ''/var/lib/lxd/devices/c1'' usb_config ''usb0'' usb_add =
        Inl (Errorf ''mknod: operation not permitted'')"
proof -
  have ours: "unixHotplugIsOurDevice usb_config usb_add" "\<not> unixHotplugIsOurDevice usb_config usb_other"
    "get usb_config ''vendorid'' = []" "get usb_config ''productid'' = Product usb_add"
    "Action usb_add = ''add''"
    by (simp_all add: unixHotplugIsOurDevice_def get_def usb_config_def usb_add_def usb_other_def)
  have ok: "unixDeviceSetupCharNum helpers_ok ''/var/lib/lxd/devices/c1'' ''unix'' ''usb0'' usb_config
       (Major usb_add) (Minor usb_add) (Path usb_add) False empty_RunConfig =
     Inr (empty_RunConfig\<lparr>Mounts := [\<lparr>DevPath = ''/var/lib/lxd/devices/c1/unix.usb0'',
                                        TargetPath = ''/dev/bus/usb/001/004''\<rparr>]\<rparr>)"
    by (simp add: helpers_ok_def setup_ok_def empty_RunConfig_def usb_add_def)
  have bad: "unixDeviceSetupCharNum helpers_failing ''/var/lib/lxd/devices/c1'' ''unix'' ''usb0'' usb_config
       (Major usb_add) (Minor usb_add) (Path usb_add) False empty_RunConfig =
     Inl (Errorf ''mknod: operation not permitted'')"
    by (simp add: helpers_failing_def setup_fails_def)
  show ?thesis
    using ours
      registered_handler_matches [of helpers_ok "''default''" "''c1''" "''/var/lib/lxd/devices/c1''"
         "''usb0''" usb_config "[]" usb_other empty_RunConfig "Errorf []"]
      registered_handler_matches [of helpers_ok "''default''" "''c1''" "''/var/lib/lxd/devices/c1''"
         "''usb0''" usb_config "[]" usb_add
         "empty_RunConfig\<lparr>Mounts := [\<lparr>DevPath = ''/var/lib/lxd/devices/c1/unix.usb0'',
                                        TargetPath = ''/dev/bus/usb/001/004''\<rparr>]\<rparr>" "Errorf []"]
      registered_handler_matches [of helpers_failing "''default''" "''c1''" "''/var/lib/lxd/devices/c1''"
         "''usb0''" usb_config "[]" usb_add empty_RunConfig "Errorf ''mknod: operation not permitted''"]
      ok bad
    by (simp add: empty_RunConfig_def usb_add_def)
qed

subsection \<open>Reserved keys\<close>

lemma check_reserved_None:
  "check_reserved cfg other = None \<longleftrightarrow>
     (\<forall>(k, v) \<in> set cfg. reserved k \<longrightarrow> get other k = v)"
  by (induction cfg) (auto simp: reserved_def split: if_splits)

lemma get_distinct: "distinct (map fst m) \<Longrightarrow> (k, v) \<in> set m \<Longrightarrow> get m k = v"
  by (simp add: get_def)

lemma get_in_set: "get m k \<noteq> [] \<Longrightarrow> \<exists>v. (k, v) \<in> set m"
  by (auto simp: get_def split: option.splits dest: map_of_SomeD)

lemma check_userRequested_iff:
  assumes dc: "distinct (map fst cfg)" and dl: "distinct (map fst (localConfig vm))"
  shows "check_userRequested vm cfg = None \<longleftrightarrow>
         (\<forall>k. reserved k \<longrightarrow> get cfg k = get (localConfig vm) k)"
proof
  assume ok: "check_userRequested vm cfg = None"
  then have o1: "check_reserved cfg (localConfig vm) = None"
    and o2: "check_reserved (localConfig vm) cfg = None"
    by (simp_all add: check_userRequested_def split: option.splits)
  have a: "\<forall>(k, v) \<in> set cfg. reserved k \<longrightarrow> get (localConfig vm) k = v"
    using o1 by (rule check_reserved_None [THEN iffD1])
  have b: "\<forall>(k, v) \<in> set (localConfig vm). reserved k \<longrightarrow> get cfg k = v"
    using o2 by (rule check_reserved_None [THEN iffD1])
  show "\<forall>k. reserved k \<longrightarrow> get cfg k = get (localConfig vm) k"
  proof (intro allI impI)
    fix k assume r: "reserved k"
    show "get cfg k = get (localConfig vm) k"
    proof (cases "\<exists>v. (k, v) \<in> set cfg")
      case True
      then obtain v where v: "(k, v) \<in> set cfg" by blast
      from bspec [OF a v] r have "get (localConfig vm) k = v" by simp
      with get_distinct [OF dc v] show ?thesis by simp
    next
      case False
      then have c0: "get cfg k = []" using get_in_set [of cfg k] by blast
      show ?thesis
      proof (cases "\<exists>v. (k, v) \<in> set (localConfig vm)")
        case True
        then obtain v where v: "(k, v) \<in> set (localConfig vm)" by blast
        from bspec [OF b v] r have "get cfg k = v" by simp
        with get_distinct [OF dl v] show ?thesis by simp
      next
        case False
        then have "get (localConfig vm) k = []" using get_in_set [of "localConfig vm" k] by blast
        with c0 show ?thesis by simp
      qed
    qed
  qed
next
  assume same: "\<forall>k. reserved k \<longrightarrow> get cfg k = get (localConfig vm) k"
  have a: "\<forall>(k, v) \<in> set cfg. reserved k \<longrightarrow> get (localConfig vm) k = v"
  proof (clarify)
    fix k v assume "(k, v) \<in> set cfg" and "reserved k"
    then show "get (localConfig vm) k = v"
      using same get_distinct [OF dc, of k v] by simp
  qed
  have b: "\<forall>(k, v) \<in> set (localConfig vm). reserved k \<longrightarrow> get cfg k = v"
  proof (clarify)
    fix k v assume "(k, v) \<in> set (localConfig vm)" and "reserved k"
    then show "get cfg k = v"
      using same get_distinct [OF dl, of k v] by simp
  qed
  have "check_reserved cfg (localConfig vm) = None"
    using a by (rule check_reserved_None [THEN iffD2])
  moreover have "check_reserved (localConfig vm) cfg = None"
    using b by (rule check_reserved_None [THEN iffD2])
  ultimately show "check_userRequested vm cfg = None"
    by (simp add: check_userRequested_def)
qed

lemma args_Config_defaults: "args_Config (set_defaults vm args) = args_Config args"
  by (simp add: args_Config_def set_defaults_def split: option.splits)

lemma validate_args_userRequested:
  "check_userRequested vm (args_Config args) \<noteq> None \<Longrightarrow> validate_args e vm args True \<noteq> None"
  by (simp add: validate_args_def split: option.splits sum.splits)

lemma Update_invalid_args:
  assumes "validate_args e vm (set_defaults vm args) ur \<noteq> None"
  shows "fst (Update e args ur (vm, w)) \<noteq> None"
proof -
  from assms obtain err where err: "validate_args e vm (set_defaults vm args) ur = Some err"
    by blast
  show ?thesis
  proof (cases "IsRunning (monitor_at e (sessions w))")
    case True
    then show ?thesis by (simp add: Update_def IsRunning_now_def)
  next
    case False
    with err show ?thesis by (simp add: Update_def IsRunning_now_def Let_def)
  qed
qed

text \<open>
  C5, as stated, fails for a reserved key added or removed with the empty value: the
  supplied config holds \<^verbatim>\<open>image.os\<close> with the empty string and the local config does not
  hold the key, yet the reserved-namespace check passes and \<^verbatim>\<open>Update\<close> succeeds, storing
  the key; and where the local config holds the key with the empty string and the supplied
  config leaves it out, the check passes as well and \<^verbatim>\<open>Update\<close> removes the key.
\<close>

theorem Update_reserved_key_empty_value:
  "HasPrefix ''image.os'' ''image.''
   \<and> map_of (localConfig vm1) ''image.os'' = None
   \<and> map_of (args_Config args_added_empty) ''image.os'' = Some []
   \<and> check_userRequested vm1 (args_Config args_added_empty) = None
   \<and> fst (Update calm args_added_empty True (vm1, world1)) = None
   \<and> map_of (localConfig (fst (snd (Update calm args_added_empty True (vm1, world1))))) ''image.os'' = Some []
   \<and> map_of (localConfig vm_empty_key) ''image.os'' = Some []
   \<and> map_of (args_Config args_removed_empty) ''image.os'' = None
   \<and> check_userRequested vm_empty_key (args_Config args_removed_empty) = None
   \<and> fst (Update calm args_removed_empty True (vm_empty_key, world_empty_key)) = None
   \<and> map_of (localConfig (fst (snd (Update calm args_removed_empty True (vm_empty_key, world_empty_key)))))
        ''image.os'' = None"
  by code_simp

text \<open>
  C5, amended. What is compared is the value under a key, a key that a config does not
  hold giving the empty string there, as in the source's comparisons. When \<^verbatim>\<open>Update\<close> is
  called with \<^verbatim>\<open>userRequested\<close> set and the value of some key of the "volatile." or
  "image." namespace differs between the supplied config and the instance's local config
  (the key modified, added with a value that is not empty, or removed where it held a
  value that is not empty), the reserved-namespace check fails and so does the call; when
  no such value differs, the check passes. A reserved key added or removed with the empty
  value is no difference.
\<close>

theorem Update_reserved_keys:
  "distinct (map fst (args_Config args)) \<and> distinct (map fst (localConfig vm)) \<longrightarrow>
     ((\<exists>k. reserved k \<and> get (args_Config args) k \<noteq> get (localConfig vm) k) \<longrightarrow>
         check_userRequested vm (args_Config args) \<noteq> None
         \<and> fst (Update e args True (vm, w)) \<noteq> None)
     \<and> ((\<forall>k. reserved k \<longrightarrow> get (args_Config args) k = get (localConfig vm) k) \<longrightarrow>
         check_userRequested vm (args_Config args) = None)"
proof (intro impI)
  assume d: "distinct (map fst (args_Config args)) \<and> distinct (map fst (localConfig vm))"
  then have iff: "check_userRequested vm (args_Config args) = None \<longleftrightarrow>
         (\<forall>k. reserved k \<longrightarrow> get (args_Config args) k = get (localConfig vm) k)"
    using check_userRequested_iff by blast
  have fails: "fst (Update e args True (vm, w)) \<noteq> None"
    if "check_userRequested vm (args_Config args) \<noteq> None"
  proof -
    from that have "check_userRequested vm (args_Config (set_defaults vm args)) \<noteq> None"
      by (simp add: args_Config_defaults)
    then have "validate_args e vm (set_defaults vm args) True \<noteq> None"
      by (rule validate_args_userRequested)
    then show ?thesis by (rule Update_invalid_args)
  qed
  from iff fails
  show "((\<exists>k. reserved k \<and> get (args_Config args) k \<noteq> get (localConfig vm) k) \<longrightarrow>
         check_userRequested vm (args_Config args) \<noteq> None
         \<and> fst (Update e args True (vm, w)) \<noteq> None)
     \<and> ((\<forall>k. reserved k \<longrightarrow> get (args_Config args) k = get (localConfig vm) k) \<longrightarrow>
         check_userRequested vm (args_Config args) = None)"
    by blast
qed

theorem Update_reserved_keys_witness:
  "distinct (map fst (args_Config args_modified)) \<and> distinct (map fst (localConfig vm1))
   \<and> reserved ''volatile.eth0.hwaddr''
   \<and> get (args_Config args_modified) ''volatile.eth0.hwaddr'' \<noteq> get (localConfig vm1) ''volatile.eth0.hwaddr''
   \<and> check_userRequested vm1 (args_Config args_modified) \<noteq> None
   \<and> fst (Update calm args_modified True (vm1, world1)) \<noteq> None
   \<and> check_userRequested vm1 config_removed = Some (Errorf ''Volatile keys are read-only'')
   \<and> check_userRequested vm1 config_added = Some (Errorf ''Image keys are read-only'')
   \<and> check_userRequested vm1 (args_Config args_cpu) = None"
proof -
  have d: "distinct (map fst (args_Config args_modified)) \<and> distinct (map fst (localConfig vm1))"
    by (simp add: args_modified_def args_cpu_def args_Config_def config_modified_def vm1_def config1_def)
  have r: "reserved ''volatile.eth0.hwaddr''"
    by (simp add: reserved_def HasPrefix_def)
  have g: "get (args_Config args_modified) ''volatile.eth0.hwaddr'' \<noteq> get (localConfig vm1) ''volatile.eth0.hwaddr''"
    by (simp add: args_modified_def args_cpu_def args_Config_def config_modified_def vm1_def config1_def get_def)
  have others: "check_userRequested vm1 config_removed = Some (Errorf ''Volatile keys are read-only'')"
    "check_userRequested vm1 config_added = Some (Errorf ''Image keys are read-only'')"
    "check_userRequested vm1 (args_Config args_cpu) = None"
    by (simp_all add: check_userRequested_def config_removed_def config_added_def vm1_def config1_def
        config2_def args_cpu_def args_Config_def HasPrefix_def get_def)
  show ?thesis
    using Update_reserved_keys [of args_modified vm1 calm world1] d r g others by blast
qed

subsection \<open>VolatileSet\<close>














subsection \<open>Frames of Update\<close>

lemma quiet_nvram: "quiet w w' \<Longrightarrow> nvram_events w' = nvram_events w"
proof -
  assume "quiet w w'"
  then obtain evs where "host w' = host w @ evs" and "list_all (\<lambda>ev. \<not> is_nvram ev) evs"
    by (auto simp: quiet_def)
  then show ?thesis
    by (simp add: nvram_events_def list_all_iff)
qed

lemma quiet_db: "quiet w w' \<Longrightarrow> volatile_frame (db w) (db w')"
  by (simp add: quiet_def)

lemma setupNvram_effect:
  assumes "setupNvram e (vm, w) = (r, (vm', w'))"
  shows "vm' = vm \<and> db w' = db w
         \<and> (r = None \<longrightarrow> nvram_events w' \<noteq> nvram_events w)"
  using assms
  by (auto simp: setupNvram_def Let_def emit_def nvram_events_def split: if_splits option.splits)

lemma undo_changes_fields:
  "description (undo_changes old vm) = description old"
  "architecture (undo_changes old vm) = architecture old"
  "ephemeral (undo_changes old vm) = ephemeral old"
  "localConfig (undo_changes old vm) = localConfig old"
  "expandedConfig (undo_changes old vm) = expandedConfig old"
  "localDevices (undo_changes old vm) = localDevices old"
  "expandedDevices (undo_changes old vm) = expandedDevices old"
  "profiles (undo_changes old vm) = profiles old"
  "expiryDate (undo_changes old vm) = expiryDate old"
  by (simp_all add: undo_changes_def)

text \<open>
  The steps between the change of the fields and the final transaction: the database
  changes at most in volatile keys, and the firmware settings are touched only when
  secure boot is among the changed keys, and are touched when it is and the steps succeed.
\<close>

lemma apply_update_effect:
  assumes run: "apply_update e old (vm0, w) = (r, (vm', w'))"
  defines "changed \<equiv> changedConfig (expandedConfig old) (expandedConfig (snd (expandConfig e None vm0)))"
  shows "volatile_frame (db w) (db w')"
    and "nvram_events w' \<noteq> nvram_events w \<Longrightarrow> StringInSlice ''security.secureboot'' changed"
    and "r = None \<Longrightarrow> StringInSlice ''security.secureboot'' changed \<Longrightarrow> nvram_events w' \<noteq> nvram_events w"
proof -
  obtain r1 vm1 where x1: "expandConfig e None vm0 = (r1, vm1)"
    by (cases "expandConfig e None vm0")
  obtain r2 vm2 where x2: "expandDevices e None vm1 = (r2, vm2)"
    by (cases "expandDevices e None vm1")
  have ec: "expandedConfig vm2 = expandedConfig vm1"
    using x2 by (auto simp: expandDevices_def split: sum.splits if_splits)
  have ch: "changed = changedConfig (expandedConfig old) (expandedConfig vm2)"
    by (simp add: changed_def x1 ec)
  obtain rm adds upd updateDiff where
    df: "Devices_Update (expandedDevices old) (expandedDevices vm2) (updateFields_of e) = (rm, adds, upd, updateDiff)"
    by (metis prod.exhaust)
  obtain r3 s3 where x3: "updateDevices e rm adds upd (expandedDevices old) (vm2, w) = (r3, s3)"
    by (cases "updateDevices e rm adds upd (expandedDevices old) (vm2, w)")
  have q3: "quiet w (snd s3)"
    using updateDevices_quiet [of "(vm2, w)" e rm adds upd "expandedDevices old"] x3 by simp
  define useMaas where "useMaas = (\<not> snapshot (fst s3) \<and> list_ex (\<lambda>key. StringInSlice key updateDiff)
       [''maas.subnet.ipv4'', ''maas.subnet.ipv6'', ''ipv4.address'', ''ipv6.address''])"
  obtain r4 s4 where x4: "(if useMaas then maasUpdate e (Some (expandedDevices old)) s3 else (None, s3)) = (r4, s4)"
    by (metis prod.exhaust)
  have q4: "quiet w (snd s4)"
  proof (cases useMaas)
    case True
    then have "s4 = snd (maasUpdate e (Some (expandedDevices old)) s3)" using x4 by simp
    then show ?thesis using quiet_trans [OF q3 maasUpdate_quiet] by simp
  next
    case False
    then show ?thesis using x4 q3 by simp
  qed
  obtain vm4 w4 where s4: "s4 = (vm4, w4)" by (cases s4)
  obtain r5 vm5 w5 where x5: "setupNvram e (vm4, w4) = (r5, (vm5, w5))"
    by (metis prod.exhaust)
  note n5 = setupNvram_effect [OF x5]
  have unfolded: "(r, (vm', w')) =
    (case r1 of
       Some err \<Rightarrow> (Some (Wrap err ''Expand config''), (vm1, w))
     | None \<Rightarrow>
      (case r2 of
         Some err \<Rightarrow> (Some (Wrap err ''Expand devices''), (vm2, w))
       | None \<Rightarrow>
        (case containerValidConfig e (expandedConfig vm2) True of
           Some err \<Rightarrow> (Some (Wrap err ''Invalid expanded config''), (vm2, w))
         | None \<Rightarrow>
          (case instanceValidDevices e (expandedDevices vm2) True of
             Some err \<Rightarrow> (Some (Wrap err ''Invalid expanded devices''), (vm2, w))
           | None \<Rightarrow>
            (case r3 of
               Some err \<Rightarrow> (Some err, s3)
             | None \<Rightarrow>
              (case r4 of
                 Some err \<Rightarrow> (Some err, s4)
               | None \<Rightarrow>
                  (if StringInSlice ''security.secureboot'' changed then (r5, (vm5, w5))
                   else (None, s4))))))))"
    using run x1 x2 df x3 x4 x5 s4
    by (auto simp: apply_update_def Let_def ch useMaas_def split: option.splits)
  have w_cases: "w' = w \<or> w' = snd s3 \<or> w' = w4
      \<or> (w' = w5 \<and> StringInSlice ''security.secureboot'' changed \<and> r = r5)"
    using unfolded s4 by (auto split: option.splits if_splits)
  have q3': "volatile_frame (db w) (db (snd s3))" "nvram_events (snd s3) = nvram_events w"
    using quiet_db [OF q3] quiet_nvram [OF q3] by simp_all
  have q4': "volatile_frame (db w) (db w4)" "nvram_events w4 = nvram_events w"
    using quiet_db [OF q4] quiet_nvram [OF q4] s4 by simp_all
  have q5': "volatile_frame (db w) (db w5)"
    using q4' n5 by simp
  show "volatile_frame (db w) (db w')"
    using w_cases q3' q4' q5' volatile_frame_refl by auto
  show "StringInSlice ''security.secureboot'' changed" if "nvram_events w' \<noteq> nvram_events w"
    using w_cases q3' q4' that by auto
  show "nvram_events w' \<noteq> nvram_events w"
    if "r = None" and "StringInSlice ''security.secureboot'' changed"
  proof -
    from unfolded that have "(r, (vm', w')) = (r5, (vm5, w5))" and "r5 = None"
      by (auto split: option.splits)
    then show ?thesis using n5 q4' by simp
  qed
qed


lemma finish_update_effect:
  assumes "finish_update e (vm, w) = (r, (vm', w'))"
  shows "nvram_events w' = nvram_events w
         \<and> (\<forall>err. r = Some err \<longrightarrow> (\<exists>x. err = Wrap x ''Failed to write backup file''))"
  using assms
  by (auto simp: finish_update_def Let_def emit_s_def emit_def nvram_events_def
      split: option.splits if_splits prod.splits)

lemma Update_cases:
  assumes run: "Update e args ur (vm, w) = (r, (vm', w'))"
  defines "w0 \<equiv> w\<lparr>sessions := Suc (sessions w)\<rparr>"
    and "vm0 \<equiv> apply_args (set_defaults vm args) vm"
  obtains
    (early) "r \<noteq> None" "vm' = vm" "w' = w0"
  | (apply_failed) ra vma where "apply_update e vm (vm0, w0) = (ra, (vma, w'))" "ra \<noteq> None" "r = ra"
      "vm' = undo_changes vm vma"
  | (persist_failed) vma wa rp where "apply_update e vm (vm0, w0) = (None, (vma, wa))"
      "persist e (vma, wa) = (rp, (vma, wa))" "rp \<noteq> None" "r = rp" "vm' = undo_changes vm vma" "w' = wa"
  | (finish_failed) vma wa vmp wp rf vmf where "apply_update e vm (vm0, w0) = (None, (vma, wa))"
      "persist e (vma, wa) = (None, (vmp, wp))" "finish_update e (vmp, wp) = (rf, (vmf, w'))"
      "rf \<noteq> None" "r = rf" "vm' = undo_changes vm vmf"
  | (succeeded) vma wa vmp wp where "apply_update e vm (vm0, w0) = (None, (vma, wa))"
      "persist e (vma, wa) = (None, (vmp, wp))" "finish_update e (vmp, wp) = (None, (vm', w'))"
      "r = None"
proof (cases "IsRunning (monitor_at e (sessions w))")
  case True
  then have "Update e args ur (vm, w) = (Some (Errorf ''Update whilst running not supported''), (vm, w0))"
    by (simp add: Update_def IsRunning_now_def w0_def)
  with run have "r \<noteq> None" "vm' = vm" "w' = w0"
    by auto
  then show ?thesis by (rule early)
next
  case False
  show ?thesis
  proof (cases "validate_args e vm (set_defaults vm args) ur")
    case (Some err)
    with False have "Update e args ur (vm, w) = (Some err, (vm, w0))"
      by (simp add: Update_def IsRunning_now_def w0_def Let_def)
    with run have "r \<noteq> None" "vm' = vm" "w' = w0"
      by auto
    then show ?thesis by (rule early)
  next
    case None
    note valid = this
    show ?thesis
    proof (cases "DeepCopy_result e")
      case (Some err)
      with False valid have "Update e args ur (vm, w) = (Some err, (vm, w0))"
        by (simp add: Update_def IsRunning_now_def w0_def Let_def)
      with run have "r \<noteq> None" "vm' = vm" "w' = w0"
        by auto
      then show ?thesis by (rule early)
    next
      case None
      note copied = this
      obtain ra vma wa where a: "apply_update e vm (vm0, w0) = (ra, (vma, wa))"
        by (metis prod.exhaust)
      have body: "(r, (vm', w')) =
        (case ra of
           Some err \<Rightarrow> (Some err, (undo_changes vm vma, wa))
         | None \<Rightarrow>
            (case persist e (vma, wa) of
               (Some err, (vm2, w2)) \<Rightarrow> (Some err, (undo_changes vm vm2, w2))
             | (None, s2) \<Rightarrow>
                (case finish_update e s2 of
                   (Some err, (vm3, w3)) \<Rightarrow> (Some err, (undo_changes vm vm3, w3))
                 | (None, s3) \<Rightarrow> (None, s3))))"
      proof -
        have "Update e args ur (vm, w) =
          (case ra of
           Some err \<Rightarrow> (Some err, (undo_changes vm vma, wa))
         | None \<Rightarrow>
            (case persist e (vma, wa) of
               (Some err, (vm2, w2)) \<Rightarrow> (Some err, (undo_changes vm vm2, w2))
             | (None, s2) \<Rightarrow>
                (case finish_update e s2 of
                   (Some err, (vm3, w3)) \<Rightarrow> (Some err, (undo_changes vm vm3, w3))
                 | (None, s3) \<Rightarrow> (None, s3))))"
          using False valid copied a
          by (simp add: Update_def IsRunning_now_def w0_def vm0_def Let_def split: option.splits)
        with run show ?thesis by simp
      qed
      show ?thesis
      proof (cases ra)
        case (Some err)
        with body a have "apply_update e vm (vm0, w0) = (ra, (vma, w'))" "ra \<noteq> None" "r = ra"
          "vm' = undo_changes vm vma"
          by simp_all
        then show ?thesis by (rule apply_failed)
      next
        case None
        note applied = this
        obtain rp vmp wp where p: "persist e (vma, wa) = (rp, (vmp, wp))"
          by (metis prod.exhaust)
        show ?thesis
        proof (cases rp)
          case (Some err)
          have same: "vmp = vma \<and> wp = wa"
            using p Some by (auto simp: persist_def split: option.splits if_splits)
          from body applied p Some same a
          have "apply_update e vm (vm0, w0) = (None, (vma, wa))"
            "persist e (vma, wa) = (rp, (vma, wa))" "rp \<noteq> None" "r = rp"
            "vm' = undo_changes vm vma" "w' = wa"
            by simp_all
          then show ?thesis by (rule persist_failed)
        next
          case None
          note persisted = this
          obtain rf vmf wf where f: "finish_update e (vmp, wp) = (rf, (vmf, wf))"
            by (metis prod.exhaust)
          show ?thesis
          proof (cases rf)
            case (Some err)
            from body applied p persisted f Some a
            have "apply_update e vm (vm0, w0) = (None, (vma, wa))"
              "persist e (vma, wa) = (None, (vmp, wp))" "finish_update e (vmp, wp) = (rf, (vmf, w'))"
              "rf \<noteq> None" "r = rf" "vm' = undo_changes vm vmf"
              by simp_all
            then show ?thesis by (rule finish_failed)
          next
            case None
            from body applied p persisted f None a
            have "apply_update e vm (vm0, w0) = (None, (vma, wa))"
              "persist e (vma, wa) = (None, (vmp, wp))" "finish_update e (vmp, wp) = (None, (vm', w'))"
              "r = None"
              by simp_all
            then show ?thesis by (rule succeeded)
          qed
        qed
      qed
    qed
  qed
qed

subsection \<open>Update: rollback\<close>

lemma Update_early_frame: "volatile_frame (db w) (db (w\<lparr>sessions := n\<rparr>))"
  by (simp add: volatile_frame_def)

text \<open>
  C1, as stated, fails for the persisted state. The network device is dropped, so the
  device diff clears its volatile hardware address in the database and in memory; then
  the final transaction fails. \<^verbatim>\<open>Update\<close> returns the error and the struct is as before,
  but the database has lost the volatile key.
\<close>

theorem Update_failure_keeps_cleared_volatile_key:
  "Update env_db_locked args_drop_nic False (vm1, world1) =
     (Some (Errorf ''Failed to update database: database is locked''),
      (vm1, world1\<lparr>db := db1\<lparr>db_config := [(''limits.cpu'', ''1'')]\<rparr>, sessions := 2\<rparr>))
   \<and> db_config (db world1) = [(''limits.cpu'', ''1''), (''volatile.eth0.hwaddr'', ''00:16:3e:aa:bb:cc'')]"
  by code_simp

text \<open>
  C1, amended. If \<^verbatim>\<open>Update\<close> returns an error, the in-memory state (description,
  architecture, ephemeral flag, local and expanded config, local and expanded devices,
  profiles, expiry date) is restored exactly to its values before the call. For every
  failure occurring before the final persist succeeds, that is for every error other
  than the one of writing the backup file, the persisted state is unchanged up to
  volatile keys: description, architecture, ephemeral flag, expiry date, devices,
  profiles and every config key outside the "volatile." namespace are as before, while
  volatile keys that the device steps cleared or generated before the failure stay
  changed in the database.
\<close>

theorem Update_failure_restores:
  "Update e args ur (vm, w) = (Some err, (vm', w')) \<longrightarrow>
     description vm' = description vm \<and> architecture vm' = architecture vm
     \<and> ephemeral vm' = ephemeral vm
     \<and> localConfig vm' = localConfig vm \<and> expandedConfig vm' = expandedConfig vm
     \<and> localDevices vm' = localDevices vm \<and> expandedDevices vm' = expandedDevices vm
     \<and> profiles vm' = profiles vm \<and> expiryDate vm' = expiryDate vm
     \<and> ((\<forall>x. err \<noteq> Wrap x ''Failed to write backup file'') \<longrightarrow> volatile_frame (db w) (db w'))"
proof
  assume run: "Update e args ur (vm, w) = (Some err, (vm', w'))"
  define mem where "mem = (description vm' = description vm \<and> architecture vm' = architecture vm
     \<and> ephemeral vm' = ephemeral vm
     \<and> localConfig vm' = localConfig vm \<and> expandedConfig vm' = expandedConfig vm
     \<and> localDevices vm' = localDevices vm \<and> expandedDevices vm' = expandedDevices vm
     \<and> profiles vm' = profiles vm \<and> expiryDate vm' = expiryDate vm)"
  define frame where "frame = ((\<forall>x. err \<noteq> Wrap x ''Failed to write backup file'') \<longrightarrow> volatile_frame (db w) (db w'))"
  have undone: "mem" if "vm' = undo_changes vm v" for v
    using that by (simp add: mem_def undo_changes_fields)
  from run have "mem \<and> frame"
  proof (cases rule: Update_cases)
    case early
    then show ?thesis
      by (simp add: mem_def frame_def volatile_frame_refl)
  next
    case (apply_failed ra vma)
    have "volatile_frame (db (w\<lparr>sessions := Suc (sessions w)\<rparr>)) (db w')"
      using apply_update_effect(1) [OF apply_failed(1)] .
    then have "volatile_frame (db w) (db w')" by (simp add: volatile_frame_def)
    with undone [OF apply_failed(4)] show ?thesis by (simp add: frame_def)
  next
    case (persist_failed vma wa rp)
    have "volatile_frame (db (w\<lparr>sessions := Suc (sessions w)\<rparr>)) (db wa)"
      using apply_update_effect(1) [OF persist_failed(1)] .
    then have "volatile_frame (db w) (db w')" using persist_failed(6) by (simp add: volatile_frame_def)
    with undone [OF persist_failed(5)] show ?thesis by (simp add: frame_def)
  next
    case (finish_failed vma wa vmp wp rf vmf)
    from finish_failed(4,5) have rf: "rf = Some err" by simp
    have "\<exists>x. err = Wrap x ''Failed to write backup file''"
      using finish_update_effect [OF finish_failed(3)] rf by blast
    with undone [OF finish_failed(6)] show ?thesis by (auto simp: frame_def)
  next
    case (succeeded vma wa vmp wp)
    then show ?thesis by simp
  qed
  then show "description vm' = description vm \<and> architecture vm' = architecture vm
     \<and> ephemeral vm' = ephemeral vm
     \<and> localConfig vm' = localConfig vm \<and> expandedConfig vm' = expandedConfig vm
     \<and> localDevices vm' = localDevices vm \<and> expandedDevices vm' = expandedDevices vm
     \<and> profiles vm' = profiles vm \<and> expiryDate vm' = expiryDate vm
     \<and> ((\<forall>x. err \<noteq> Wrap x ''Failed to write backup file'') \<longrightarrow> volatile_frame (db w) (db w'))"
    by (simp add: mem_def frame_def)
qed

theorem Update_failure_restores_witness:
  "Update env_db_locked args_drop_nic False (vm1, world1) =
     (Some (Errorf ''Failed to update database: database is locked''),
      (vm1, world1\<lparr>db := db1\<lparr>db_config := [(''limits.cpu'', ''1'')]\<rparr>, sessions := 2\<rparr>))
   \<and> volatile_frame (db world1) (db (world1\<lparr>db := db1\<lparr>db_config := [(''limits.cpu'', ''1'')]\<rparr>, sessions := 2\<rparr>))
   \<and> db_devices (db (world1\<lparr>db := db1\<lparr>db_config := [(''limits.cpu'', ''1'')]\<rparr>, sessions := 2\<rparr>))
        = db_devices (db world1)"
proof -
  have run: "Update env_db_locked args_drop_nic False (vm1, world1) =
     (Some (Errorf ''Failed to update database: database is locked''),
      (vm1, world1\<lparr>db := db1\<lparr>db_config := [(''limits.cpu'', ''1'')]\<rparr>, sessions := 2\<rparr>))"
    by code_simp
  have other: "Errorf ''Failed to update database: database is locked'' \<noteq> Wrap x ''Failed to write backup file''" for x
    by (simp add: Wrap_def)
  have frame: "volatile_frame (db world1) (db (world1\<lparr>db := db1\<lparr>db_config := [(''limits.cpu'', ''1'')]\<rparr>, sessions := 2\<rparr>))"
    using Update_failure_restores [of env_db_locked args_drop_nic False vm1 world1
        "Errorf ''Failed to update database: database is locked''" vm1
        "world1\<lparr>db := db1\<lparr>db_config := [(''limits.cpu'', ''1'')]\<rparr>, sessions := 2\<rparr>"] run other
    by blast
  then show ?thesis
    using run by (simp add: volatile_frame_def)
qed

subsection \<open>Update: firmware settings\<close>






end
